theory Spec2Isabelle
  imports Main "HOL-Library.AList" "HOL-Library.Sublist"
begin

section \<open>Python values as the server sees them\<close>

text \<open>
  \<^verbatim>\<open>korastats_server.py\<close> handles three kinds of data: the \<^verbatim>\<open>str\<close> arguments of a
  tool, the tree that \<^verbatim>\<open>response.json()\<close> returns, and the text it builds from both.
  A \<^verbatim>\<open>str\<close> is modelled as its UTF-8 bytes (\<open>string\<close>); the program only
  concatenates, strips and parses text, and never measures it.

  The program observes a \<^verbatim>\<open>float\<close> of the tree in two ways only, its truth value
  and its \<^verbatim>\<open>str()\<close>, so a float is carried as that pair.
\<close>

datatype pyfloat = PyFloat (is_nonzero: bool) (float_str: string)

datatype json =
    JNull
  | JBool bool
  | JInt int
  | JFloat pyfloat
  | JStr string
  | JList "json list"
  | JObj "(string \<times> json) list"

text \<open>
  Three builtins depend on tables of the interpreter (Unicode white space and digits,
  printable characters, the digit limit of \<^verbatim>\<open>int()\<close>). They are parameters of the
  model, so every theorem holds for whatever the interpreter does:
  \<open>str_strip\<close> is \<^verbatim>\<open>str.strip()\<close>, \<open>int_of_str\<close> is \<^verbatim>\<open>int(s)\<close> with \<open>None\<close> for
  \<^verbatim>\<open>ValueError\<close>, \<open>repr_of_str\<close> is \<^verbatim>\<open>repr(s)\<close> of a \<^verbatim>\<open>str\<close>.
\<close>

record python =
  str_strip :: "string \<Rightarrow> string"
  int_of_str :: "string \<Rightarrow> int option"
  repr_of_str :: "string \<Rightarrow> string"

text \<open>The exceptions that can leave a tool: nothing in the tools catches them.\<close>

datatype py_error =
    AttributeError   \<comment> \<open>\<^verbatim>\<open>.get\<close> on a value that is not a dict\<close>
  | TypeError        \<comment> \<open>\<^verbatim>\<open>len()\<close> of a bool or a number\<close>
  | DictSliceError   \<comment> \<open>\<^verbatim>\<open>d[:n]\<close> on a dict: TypeError, KeyError from Python 3.12 on\<close>
  | RecursionError   \<comment> \<open>\<^verbatim>\<open>response.json()\<close> raising what is not a ValueError (also MemoryError)\<close>

datatype 'a exc = Raised py_error | Returned 'a

definition bind_exc :: "'a exc \<Rightarrow> ('a \<Rightarrow> 'b exc) \<Rightarrow> 'b exc" where
  "bind_exc m f = (case m of Raised e \<Rightarrow> Raised e | Returned x \<Rightarrow> f x)"

fun for_each :: "('a \<Rightarrow> 'b exc) \<Rightarrow> 'a list \<Rightarrow> 'b list exc" where
  "for_each f [] = Returned []"
| "for_each f (x # xs) =
     bind_exc (f x) (\<lambda>y. bind_exc (for_each f xs) (\<lambda>ys. Returned (y # ys)))"

subsection \<open>Truth values, \<^verbatim>\<open>dict.get\<close>, \<^verbatim>\<open>len\<close> and slices\<close>

fun truthy :: "json \<Rightarrow> bool" where
  "truthy JNull = False"
| "truthy (JBool b) = b"
| "truthy (JInt i) = (i \<noteq> 0)"
| "truthy (JFloat f) = is_nonzero f"
| "truthy (JStr s) = (s \<noteq> [])"
| "truthy (JList xs) = (xs \<noteq> [])"
| "truthy (JObj kvs) = (kvs \<noteq> [])"

definition py_or :: "json \<Rightarrow> json \<Rightarrow> json" where
  "py_or a b = (if truthy a then a else b)"

text \<open>\<^verbatim>\<open>v.get(k, d)\<close>; \<^verbatim>\<open>v.get(k)\<close> is \<open>py_get v k JNull\<close>, since a missing key gives
  \<^verbatim>\<open>None\<close>, the value of a JSON null.\<close>

fun py_get :: "json \<Rightarrow> string \<Rightarrow> json \<Rightarrow> json exc" where
  "py_get (JObj kvs) k d = Returned (case map_of kvs k of None \<Rightarrow> d | Some v \<Rightarrow> v)"
| "py_get _ k d = Raised AttributeError"

fun py_len :: "json \<Rightarrow> nat exc" where
  "py_len (JList xs) = Returned (length xs)"
| "py_len (JStr s) = Returned (length s)"
| "py_len (JObj kvs) = Returned (length kvs)"
| "py_len _ = Raised TypeError"

text \<open>\<^verbatim>\<open>v[:n]\<close>, as the list of items a \<^verbatim>\<open>for\<close> loop over the slice visits. The items
  of a \<^verbatim>\<open>str\<close> are one-character strings.\<close>

fun py_slice :: "json \<Rightarrow> nat \<Rightarrow> json list exc" where
  "py_slice (JList xs) n = Returned (take n xs)"
| "py_slice (JStr s) n = Returned (map (\<lambda>c. JStr [c]) (take n s))"
| "py_slice (JObj kvs) n = Raised DictSliceError"
| "py_slice _ n = Raised TypeError"

subsection \<open>\<^verbatim>\<open>str()\<close> of a value\<close>

definition digit_char :: "nat \<Rightarrow> char" where
  "digit_char d = ''0123456789'' ! d"

fun dec_nat :: "nat \<Rightarrow> string" where
  "dec_nat n = (if n < 10 then [digit_char n] else dec_nat (n div 10) @ [digit_char (n mod 10)])"

definition str_int :: "int \<Rightarrow> string" where
  "str_int i = (if i < 0 then ''-'' @ dec_nat (nat (- i)) else dec_nat (nat i))"

fun join :: "string \<Rightarrow> string list \<Rightarrow> string" where
  "join sep [] = []"
| "join sep [x] = x"
| "join sep (x # y # ys) = x @ sep @ join sep (y # ys)"

fun py_repr :: "python \<Rightarrow> json \<Rightarrow> string" where
  "py_repr rt JNull = ''None''"
| "py_repr rt (JBool b) = (if b then ''True'' else ''False'')"
| "py_repr rt (JInt i) = str_int i"
| "py_repr rt (JFloat f) = float_str f"
| "py_repr rt (JStr s) = repr_of_str rt s"
| "py_repr rt (JList xs) = ''['' @ join '', '' (map (py_repr rt) xs) @ '']''"
| "py_repr rt (JObj kvs) =
     ''{'' @ join '', '' (map (\<lambda>kv. repr_of_str rt (fst kv) @ '': '' @ py_repr rt (snd kv)) kvs) @ ''}''"

text \<open>What an f-string puts in place of \<^verbatim>\<open>{v}\<close>.\<close>

definition py_str :: "python \<Rightarrow> json \<Rightarrow> string" where
  "py_str rt v = (case v of JStr s \<Rightarrow> s | _ \<Rightarrow> py_repr rt v)"

subsection \<open>The markers and the characters outside ASCII\<close>

definition error_mark :: string where
  "error_mark = [CHR 0xE2, CHR 0x9D, CHR 0x8C]"

definition warning_mark :: string where
  "warning_mark = [CHR 0xE2, CHR 0x9A, CHR 0xA0, CHR 0xEF, CHR 0xB8, CHR 0x8F]"

definition report_mark :: string where
  "report_mark = [CHR 0xF0, CHR 0x9F, CHR 0x93, CHR 0x8A]"

definition arrow :: string where
  "arrow = [CHR 0xE2, CHR 0x86, CHR 0x92]"

definition nl :: string where
  "nl = [CHR 0x0A]"

section \<open>The world outside the process\<close>

text \<open>
  A call reads four things it does not control: the environment variable
  \<^verbatim>\<open>KORASTATS_API_KEY\<close> (\<open>None\<close> when it is not set), the upstream service, the clock, and
  the level of the root logger.
  The upstream is a function from the query parameters of the request to what
  \<^verbatim>\<open>client.get\<close>, \<^verbatim>\<open>raise_for_status\<close> and \<^verbatim>\<open>response.json()\<close> then do; the base URL and
  the timeout are part of it. \<^verbatim>\<open>raise_for_status\<close> is the one of httpx: it raises
  \<^verbatim>\<open>HTTPStatusError\<close> for every status code outside 200..299. \<^verbatim>\<open>response.json()\<close>
  returns a tree, raises a \<^verbatim>\<open>ValueError\<close>, which the program catches, or raises something
  else (a \<^verbatim>\<open>RecursionError\<close> on a body nested too deep), which it does not.
  The root logger gets its level once, at start-up (lines 13 to 18 of the source): the level
  that \<^verbatim>\<open>MCP_LOG_LEVEL\<close> names, and WARNING (30) when it names none. A record is written
  when its severity is at least that level. The records of the HTTP client go through the
  same root logger: httpx writes one at INFO (20) for every response it receives, with the
  whole URL of the request, query parameters included.
\<close>

datatype http_body =
    InvalidJson string   \<comment> \<open>\<^verbatim>\<open>response.json()\<close> raises a ValueError with this message\<close>
  | JsonRaises           \<comment> \<open>\<^verbatim>\<open>response.json()\<close> raises an exception that is not a ValueError\<close>
  | Parsed json

datatype http_result =
    RequestError string        \<comment> \<open>any exception of the request but HTTPStatusError, with its \<^verbatim>\<open>str()\<close>\<close>
  | Response nat http_body     \<comment> \<open>status code and what \<^verbatim>\<open>response.json()\<close> does\<close>

record utc_time =
  year :: nat
  month :: nat
  day :: nat
  hour :: nat
  minute :: nat
  second :: nat

record env =
  KORASTATS_API_KEY :: "string option"
  http_get :: "(string \<times> string) list \<Rightarrow> http_result"
  utc_now :: utc_time
  log_level :: nat

text \<open>
  What a call does to the world, in order: \<open>LogInfo api params\<close> is the record
  \<^verbatim>\<open>logger.info("Calling API %s with params %s", api, params)\<close>, \<open>LogError\<close> a record of
  \<^verbatim>\<open>logger.error\<close> with its message, \<open>HttpGet params\<close> the request sent with these query
  parameters, and \<open>ClientLog params code\<close> the record
  \<^verbatim>\<open>HTTP Request: GET <URL with params> "HTTP/1.1 <code> ..."\<close> of the HTTP client. Only
  records that are written are effects: \<open>written e severity r\<close> is the record \<open>r\<close> when
  the root logger lets its severity through, and nothing otherwise.
\<close>

datatype effect =
    LogInfo string "(string \<times> string) list"
  | LogError string
  | HttpGet "(string \<times> string) list"
  | ClientLog "(string \<times> string) list" nat

definition written :: "env \<Rightarrow> nat \<Rightarrow> effect \<Rightarrow> effect list" where
  "written e severity r = (if log_level e \<le> severity then [r] else [])"

section \<open>The request executor\<close>

text \<open>
  \<^verbatim>\<open>_get_api_key\<close>, \<^verbatim>\<open>_perform_request\<close>, \<^verbatim>\<open>_iso_timestamp\<close> and \<^verbatim>\<open>_format_score\<close>.
  The parameters of a request are a \<^verbatim>\<open>dict\<close> in insertion order: an association list, where
  \<^verbatim>\<open>params[key] = value\<close> replaces the entry of a key that is there and appends one that is
  not. \<^verbatim>\<open>_perform_request\<close> returns \<^verbatim>\<open>(False, text)\<close> as \<open>Returned (Inl text)\<close> and
  \<^verbatim>\<open>(True, payload)\<close> as \<open>Returned (Inr payload)\<close>, or it raises. Of the exceptions of
  the request only those that \<^verbatim>\<open>except Exception\<close> catches are outcomes here; a task that
  the host cancels is not.
\<close>

definition get_api_key :: "python \<Rightarrow> env \<Rightarrow> string" where
  "get_api_key rt e =
     str_strip rt (case KORASTATS_API_KEY e of None \<Rightarrow> [] | Some k \<Rightarrow> k)"

definition request_params :: "python \<Rightarrow> string \<Rightarrow> string \<Rightarrow> (string \<times> json) list \<Rightarrow> (string \<times> string) list" where
  "request_params rt api_key api_name extra_params =
     fold (\<lambda>(k, v). AList.update k (case v of JStr s \<Rightarrow> s | _ \<Rightarrow> py_str rt v)) extra_params
       [(''module'', ''api''), (''api'', api_name), (''version'', ''V2''),
        (''response'', ''json''), (''lang'', ''en''), (''key'', api_key)]"

definition perform_request ::
  "python \<Rightarrow> env \<Rightarrow> string \<Rightarrow> (string \<times> json) list \<Rightarrow> (string + json) exc \<times> effect list" where
  "perform_request rt e api_name extra_params =
     (let api_key = get_api_key rt e in
      if api_key = [] then
        (Returned (Inl (error_mark @
           '' Error: Missing Korastats API key. Set Docker secret KORASTATS_API_KEY.'')), [])
      else
        let params = request_params rt api_key api_name extra_params;
            called = written e 20 (LogInfo api_name (filter (\<lambda>(k, v). k \<noteq> ''key'') params)) @
                     [HttpGet params]
        in case http_get e params of
             RequestError msg \<Rightarrow>
               (Returned (Inl (error_mark @ '' Error: '' @ msg)),
                called @
                written e 40 (LogError (''Korastats request failed for '' @ api_name @ '': '' @ msg)))
           | Response code body \<Rightarrow>
               let received = called @ written e 20 (ClientLog params code) in
               if \<not> (200 \<le> code \<and> code \<le> 299) then
                 (Returned (Inl (error_mark @ '' API Error: '' @ str_int (int code))),
                  received @
                  written e 40
                    (LogError (''Korastats API returned '' @ str_int (int code) @ '' for '' @ api_name)))
               else
                 (case body of
                    InvalidJson msg \<Rightarrow>
                      (Returned (Inl (error_mark @ '' Error: Received invalid JSON from Korastats.'')),
                       received @
                       written e 40
                         (LogError (''Korastats JSON parse error for '' @ api_name @ '': '' @ msg)))
                  | JsonRaises \<Rightarrow> (Raised RecursionError, received)
                  | Parsed payload \<Rightarrow> (Returned (Inr payload), received)))"

definition pad2 :: "nat \<Rightarrow> string" where
  "pad2 n = (if n < 10 then ''0'' @ dec_nat n else dec_nat n)"

definition iso_timestamp :: "env \<Rightarrow> string" where
  "iso_timestamp e =
     (let t = utc_now e in
      dec_nat (year t) @ ''-'' @ pad2 (month t) @ ''-'' @ pad2 (day t) @ ''T'' @
      pad2 (hour t) @ '':'' @ pad2 (minute t) @ '':'' @ pad2 (second t) @ ''Z'')"

definition format_score :: "python \<Rightarrow> json \<Rightarrow> string" where
  "format_score rt score =
     (case score of
        JObj kvs \<Rightarrow>
          (let home = (case map_of kvs ''home'' of None \<Rightarrow> JNull | Some v \<Rightarrow> v);
               away = (case map_of kvs ''away'' of None \<Rightarrow> JNull | Some v \<Rightarrow> v)
           in if home = JNull \<or> away = JNull then ''N/A''
              else py_str rt home @ ''-'' @ py_str rt away)
      | _ \<Rightarrow> ''N/A'')"

section \<open>The three tools\<close>

text \<open>
  Each tool is the source function in two parts: the tool itself (validation and the
  call of the request executor) and the text it builds from a parsed payload (the rest
  of the function body, from the first \<^verbatim>\<open>payload.get\<close> on). The body of each
  \<^verbatim>\<open>for\<close> loop is a function of its own.
\<close>

subsection \<open>Optional numeric arguments\<close>

text \<open>
  The source reads an optional numeric argument with the same block each time
  (\<^verbatim>\<open>page_number\<close> and \<^verbatim>\<open>page_size\<close> in \<^verbatim>\<open>list_seasons\<close> and in
  \<^verbatim>\<open>list_season_matches\<close>):
  \<^verbatim>\<open>
  page_value = 1
  if page_number.strip():
      try:
          page_value = max(1, int(page_number.strip()))
      except ValueError:
          return ...
  \<close>
  \<open>int_at_least_1\<close> is that block, with \<open>None\<close> for the \<^verbatim>\<open>ValueError\<close> branch;
  \<open>limit_arg\<close> is the block of \<^verbatim>\<open>limit\<close> in \<^verbatim>\<open>get_match_events\<close>.
\<close>

definition int_at_least_1 :: "python \<Rightarrow> string \<Rightarrow> int \<Rightarrow> int option" where
  "int_at_least_1 rt raw dflt =
     (if str_strip rt raw \<noteq> [] then map_option (max 1) (int_of_str rt (str_strip rt raw))
      else Some dflt)"

definition limit_arg :: "python \<Rightarrow> string \<Rightarrow> int option" where
  "limit_arg rt raw =
     (if str_strip rt raw \<noteq> []
      then map_option (\<lambda>n. max 1 (min 50 n)) (int_of_str rt (str_strip rt raw))
      else Some 10)"

subsection \<open>\<^verbatim>\<open>list_seasons\<close>\<close>

definition season_line :: "python \<Rightarrow> json \<Rightarrow> string exc" where
  "season_line rt season =
     bind_exc (py_get season ''id'' (JStr ''N/A'')) (\<lambda>season_id.
     bind_exc (py_get season ''name'' (JStr ''Unknown'')) (\<lambda>name.
     bind_exc (py_get season ''startDate'' (JStr ''Unknown'')) (\<lambda>start_date.
     bind_exc (py_get season ''endDate'' (JStr ''Unknown'')) (\<lambda>end_date.
     bind_exc (py_get season ''tournament'' JNull) (\<lambda>t.
     bind_exc (py_get (py_or t (JObj [])) ''name'' JNull) (\<lambda>tn.
     let tournament = py_or tn (JStr ''Unknown'') in
     Returned (''- ID '' @ py_str rt season_id @ '': '' @ py_str rt name @ '' | '' @
               py_str rt tournament @ '' | '' @ py_str rt start_date @ '' '' @ arrow @ '' '' @
               py_str rt end_date)))))))"

definition seasons_text :: "python \<Rightarrow> env \<Rightarrow> json \<Rightarrow> string exc" where
  "seasons_text rt e payload =
     bind_exc (py_get payload ''root'' (JObj [])) (\<lambda>root.
     bind_exc (py_get root ''result'' JNull) (\<lambda>result.
     if \<not> truthy result then
       bind_exc (py_get root ''message'' (JStr ''Korastats API returned an error.'')) (\<lambda>message.
       Returned (error_mark @ '' API Error: '' @ py_str rt message))
     else
     bind_exc (py_get root ''object'' (JObj [])) (\<lambda>obj.
     bind_exc (py_get obj ''Data'' (JList [])) (\<lambda>seasons.
     if \<not> truthy seasons then
       Returned (warning_mark @ '' No seasons found for the requested page.'')
     else
     bind_exc (py_len seasons) (\<lambda>n.
     bind_exc (py_slice seasons (min n 5)) (\<lambda>preview.
     bind_exc (for_each (season_line rt) preview) (\<lambda>lines.
     bind_exc (py_get obj ''total_records'' (JStr ''Unknown'')) (\<lambda>total_records.
     bind_exc (py_get obj ''pages'' (JStr ''Unknown'')) (\<lambda>total_pages.
     bind_exc (py_get obj ''current_page'' (JStr ''Unknown'')) (\<lambda>current_page.
     bind_exc (py_get root ''message'' (JStr ''Success'')) (\<lambda>message.
     bind_exc (py_len seasons) (\<lambda>records.
     Returned (report_mark @ '' Seasons Overview:'' @ nl @
               ''- Records on page: '' @ str_int (int records) @ nl @
               ''- Total records: '' @ py_str rt total_records @ nl @
               ''- Page: '' @ py_str rt current_page @ '' of '' @ py_str rt total_pages @ nl @
               nl @
               ''Top seasons:'' @ nl @
               join nl lines @ nl @
               nl @
               ''Summary: '' @ py_str rt message @ '' | Generated at '' @ iso_timestamp e)))))))))))))"

definition list_seasons :: "python \<Rightarrow> env \<Rightarrow> string \<Rightarrow> string \<Rightarrow> string exc \<times> effect list" where
  "list_seasons rt e page_number page_size =
     (case int_at_least_1 rt page_number 1 of
        None \<Rightarrow> (Returned (error_mark @ '' Error: Invalid page_number value: '' @ page_number), [])
      | Some page_value \<Rightarrow>
     (case int_at_least_1 rt page_size 20 of
        None \<Rightarrow> (Returned (error_mark @ '' Error: Invalid page_size value: '' @ page_size), [])
      | Some size_value \<Rightarrow>
     (case perform_request rt e ''SeasonList''
             [(''page_number'', JStr (str_int page_value)), (''page_size'', JStr (str_int size_value))] of
        (Raised err, fx) \<Rightarrow> (Raised err, fx)
      | (Returned (Inl text), fx) \<Rightarrow> (Returned text, fx)
      | (Returned (Inr payload), fx) \<Rightarrow> (seasons_text rt e payload, fx))))"

subsection \<open>\<^verbatim>\<open>list_season_matches\<close>\<close>

definition match_line :: "python \<Rightarrow> json \<Rightarrow> string exc" where
  "match_line rt m =
     bind_exc (py_get m ''matchId'' (JStr ''N/A'')) (\<lambda>match_id.
     bind_exc (py_get m ''home'' JNull) (\<lambda>h.
     bind_exc (py_get (py_or h (JObj [])) ''name'' JNull) (\<lambda>hn.
     bind_exc (py_get m ''away'' JNull) (\<lambda>a.
     bind_exc (py_get (py_or a (JObj [])) ''name'' JNull) (\<lambda>an.
     bind_exc (py_get m ''dateTime'' (JStr ''Unknown'')) (\<lambda>kickoff.
     bind_exc (py_get m ''status'' JNull) (\<lambda>s.
     bind_exc (py_get (py_or s (JObj [])) ''name'' JNull) (\<lambda>sn.
     bind_exc (py_get m ''score'' JNull) (\<lambda>sc.
     let home = py_or hn (JStr ''Home'');
         away = py_or an (JStr ''Away'');
         status = py_or sn (JStr ''Unknown'');
         score = format_score rt sc
     in Returned (''- #'' @ py_str rt match_id @ '': '' @ py_str rt home @ '' vs '' @
                  py_str rt away @ '' | '' @ py_str rt kickoff @ '' | Score '' @ score @
                  '' | Status '' @ py_str rt status))))))))))"

definition matches_text :: "python \<Rightarrow> env \<Rightarrow> int \<Rightarrow> json \<Rightarrow> string exc" where
  "matches_text rt e page_value payload =
     bind_exc (py_get payload ''root'' (JObj [])) (\<lambda>root.
     bind_exc (py_get root ''result'' JNull) (\<lambda>result.
     if \<not> truthy result then
       bind_exc (py_get root ''message'' (JStr ''Korastats API returned an error.'')) (\<lambda>message.
       Returned (error_mark @ '' API Error: '' @ py_str rt message))
     else
     bind_exc (py_get root ''object'' (JObj [])) (\<lambda>obj.
     bind_exc (py_get obj ''Data'' (JList [])) (\<lambda>matches.
     if \<not> truthy matches then
       Returned (warning_mark @ '' No matches found for the supplied season.'')
     else
     bind_exc (py_len matches) (\<lambda>n.
     bind_exc (py_slice matches (min n 5)) (\<lambda>preview.
     bind_exc (for_each (match_line rt) preview) (\<lambda>lines.
     bind_exc (py_get obj ''RowsCount'' (JStr ''Unknown'')) (\<lambda>rows_count.
     bind_exc (py_get obj ''PageCount'' (JStr ''Unknown'')) (\<lambda>total_pages.
     bind_exc (py_get root ''message'' (JStr ''Success'')) (\<lambda>message.
     bind_exc (py_len matches) (\<lambda>records.
     Returned (report_mark @ '' Match Overview:'' @ nl @
               ''- Matches on page: '' @ str_int (int records) @ nl @
               ''- Total matches: '' @ py_str rt rows_count @ nl @
               ''- Page: '' @ str_int page_value @ '' of '' @ py_str rt total_pages @ nl @
               nl @
               ''Upcoming details:'' @ nl @
               join nl lines @ nl @
               nl @
               ''Summary: '' @ py_str rt message @ '' | Generated at '' @ iso_timestamp e))))))))))))"

definition list_season_matches ::
  "python \<Rightarrow> env \<Rightarrow> string \<Rightarrow> string \<Rightarrow> string \<Rightarrow> string exc \<times> effect list" where
  "list_season_matches rt e season_id page_number page_size =
     (if str_strip rt season_id = [] then
        (Returned (error_mark @ '' Error: season_id is required.''), [])
      else
     (case int_of_str rt (str_strip rt season_id) of
        None \<Rightarrow> (Returned (error_mark @ '' Error: Invalid season_id value: '' @ season_id), [])
      | Some season_value \<Rightarrow>
     (case int_at_least_1 rt page_number 1 of
        None \<Rightarrow> (Returned (error_mark @ '' Error: Invalid page_number value: '' @ page_number), [])
      | Some page_value \<Rightarrow>
     (case int_at_least_1 rt page_size 20 of
        None \<Rightarrow> (Returned (error_mark @ '' Error: Invalid page_size value: '' @ page_size), [])
      | Some size_value \<Rightarrow>
     (case perform_request rt e ''SeasonMatchList''
             [(''season_id'', JStr (str_int season_value)),
              (''page_number'', JStr (str_int page_value)),
              (''page_size'', JStr (str_int size_value))] of
        (Raised err, fx) \<Rightarrow> (Raised err, fx)
      | (Returned (Inl text), fx) \<Rightarrow> (Returned text, fx)
      | (Returned (Inr payload), fx) \<Rightarrow> (matches_text rt e page_value payload, fx))))))"

subsection \<open>\<^verbatim>\<open>get_match_events\<close>\<close>

definition event_line :: "python \<Rightarrow> json \<Rightarrow> string exc" where
  "event_line rt event =
     bind_exc (py_get event ''half'' (JStr ''N/A'')) (\<lambda>half.
     bind_exc (py_get event ''min'' (JStr ''N/A'')) (\<lambda>minute_v.
     bind_exc (py_get event ''sec'' (JInt 0)) (\<lambda>second_v.
     bind_exc (py_get event ''team'' (JStr ''Unknown'')) (\<lambda>team.
     bind_exc (py_get event ''nickname'' JNull) (\<lambda>nickname.
     bind_exc (py_get event ''player'' JNull) (\<lambda>player_v.
     bind_exc (py_get event ''category'' (JStr ''Event'')) (\<lambda>category.
     bind_exc (py_get event ''event'' (JStr ''Action'')) (\<lambda>action.
     bind_exc (py_get event ''result'' (JStr ''Unknown'')) (\<lambda>result.
     let player = py_or (py_or nickname player_v) (JStr ''Unknown player'') in
     Returned (''- '' @ py_str rt half @ ''H '' @ py_str rt minute_v @ [CHR 0x27] @
               py_str rt second_v @ [CHR 0x22] @ '' '' @ py_str rt team @ '': '' @
               py_str rt player @ '' | '' @ py_str rt category @ '' '' @ arrow @ '' '' @
               py_str rt action @ '' ('' @ py_str rt result @ '')''))))))))))"

definition events_text :: "python \<Rightarrow> env \<Rightarrow> int \<Rightarrow> int \<Rightarrow> json \<Rightarrow> string exc" where
  "events_text rt e match_value limit_value payload =
     bind_exc (py_get payload ''result'' JNull) (\<lambda>result.
     if \<not> truthy result then
       bind_exc (py_get payload ''message'' (JStr ''Korastats API returned an error.'')) (\<lambda>message.
       Returned (error_mark @ '' API Error: '' @ py_str rt message))
     else
     bind_exc (py_get payload ''data'' (JObj [])) (\<lambda>data.
     bind_exc (py_get data ''match'' JNull) (\<lambda>m.
     if \<not> truthy m then
       Returned (warning_mark @ '' No match details returned for the given match_id.'')
     else
     bind_exc (py_get m ''home'' JNull) (\<lambda>h.
     bind_exc (py_get (py_or h (JObj [])) ''name'' JNull) (\<lambda>hn.
     bind_exc (py_get m ''away'' JNull) (\<lambda>a.
     bind_exc (py_get (py_or a (JObj [])) ''name'' JNull) (\<lambda>an.
     bind_exc (py_get m ''status'' JNull) (\<lambda>s.
     bind_exc (py_get (py_or s (JObj [])) ''strStatus'' JNull) (\<lambda>sn.
     bind_exc (py_get m ''events'' (JList [])) (\<lambda>events.
     if \<not> truthy events then
       Returned (warning_mark @ '' No events available for match '' @ str_int match_value @ ''.'')
     else
     bind_exc (py_len events) (\<lambda>n.
     bind_exc (py_slice events (min n (nat limit_value))) (\<lambda>preview.
     bind_exc (for_each (event_line rt) preview) (\<lambda>lines.
     bind_exc (py_get payload ''message'' (JStr ''Success'')) (\<lambda>message.
     bind_exc (py_len events) (\<lambda>total.
     let home = py_or hn (JStr ''Home'');
         away = py_or an (JStr ''Away'');
         status = py_or sn (JStr ''Unknown'')
     in Returned (report_mark @ '' Match Events:'' @ nl @
                  ''- Fixture: '' @ py_str rt home @ '' vs '' @ py_str rt away @ nl @
                  ''- Status: '' @ py_str rt status @ nl @
                  ''- Total events: '' @ str_int (int total) @ nl @
                  ''- Showing first '' @ str_int (int (length preview)) @
                  '' events (limit '' @ str_int limit_value @ '')'' @ nl @
                  nl @
                  ''Highlights:'' @ nl @
                  join nl lines @ nl @
                  nl @
                  ''Summary: '' @ py_str rt message @ '' | Generated at '' @ iso_timestamp e))))))))))))))))"

definition get_match_events ::
  "python \<Rightarrow> env \<Rightarrow> string \<Rightarrow> string \<Rightarrow> string exc \<times> effect list" where
  "get_match_events rt e match_id limit =
     (if str_strip rt match_id = [] then
        (Returned (error_mark @ '' Error: match_id is required.''), [])
      else
     (case int_of_str rt (str_strip rt match_id) of
        None \<Rightarrow> (Returned (error_mark @ '' Error: Invalid match_id value: '' @ match_id), [])
      | Some match_value \<Rightarrow>
     (case limit_arg rt limit of
        None \<Rightarrow> (Returned (error_mark @ '' Error: Invalid limit value: '' @ limit), [])
      | Some limit_value \<Rightarrow>
     (case perform_request rt e ''MatchEventList'' [(''match_id'', JStr (str_int match_value))] of
        (Raised err, fx) \<Rightarrow> (Raised err, fx)
      | (Returned (Inl text), fx) \<Rightarrow> (Returned text, fx)
      | (Returned (Inr payload), fx) \<Rightarrow> (events_text rt e match_value limit_value payload, fx)))))"

section \<open>What a call did\<close>

text \<open>A tool returns its result together with the effects of the call, in order.
  \<open>requests\<close> are the parameter sets of the HTTP requests among them, \<open>logs\<close> the
  log records the program itself writes (those of \<^verbatim>\<open>logger\<close>, not those of the HTTP client),
  \<open>logged_params\<close> the parameter mappings in its \<^verbatim>\<open>Calling API\<close> records.\<close>

fun requests :: "effect list \<Rightarrow> (string \<times> string) list list" where
  "requests [] = []"
| "requests (HttpGet p # fx) = p # requests fx"
| "requests (_ # fx) = requests fx"

fun logs :: "effect list \<Rightarrow> effect list" where
  "logs [] = []"
| "logs (LogInfo api p # fx) = LogInfo api p # logs fx"
| "logs (LogError m # fx) = LogError m # logs fx"
| "logs (_ # fx) = logs fx"

fun logged_params :: "effect list \<Rightarrow> (string \<times> string) list list" where
  "logged_params [] = []"
| "logged_params (LogInfo api p # fx) = p # logged_params fx"
| "logged_params (_ # fx) = logged_params fx"

text \<open>The value a call sent upstream under a parameter name, when it sent one request.\<close>

definition sent :: "effect list \<Rightarrow> string \<Rightarrow> string option" where
  "sent fx k = (case requests fx of [params] \<Rightarrow> map_of params k | _ \<Rightarrow> None)"

text \<open>The call issued exactly one request, and the upstream answered it with a 2xx
  status and a JSON body that parses to \<open>payload\<close>.\<close>

definition answered :: "env \<Rightarrow> effect list \<Rightarrow> json \<Rightarrow> bool" where
  "answered e fx payload =
     (case requests fx of
        [params] \<Rightarrow>
          (case http_get e params of
             Response code (Parsed p) \<Rightarrow> 200 \<le> code \<and> code \<le> 299 \<and> p = payload
           | _ \<Rightarrow> False)
      | _ \<Rightarrow> False)"

text \<open>A call returned a success report.\<close>

definition is_report :: "string exc \<Rightarrow> bool" where
  "is_report r = (case r of Returned s \<Rightarrow> prefix report_mark s | Raised err \<Rightarrow> False)"

text \<open>Two results are the same but for the timestamp: they are equal, or both are texts
  that end with their own timestamp and are equal before it.\<close>

definition same_but_timestamp :: "string exc \<Rightarrow> string \<Rightarrow> string exc \<Rightarrow> string \<Rightarrow> bool" where
  "same_but_timestamp a t1 b t2 =
     (a = b \<or>
      (case (a, b) of
         (Returned s1, Returned s2) \<Rightarrow>
           suffix t1 s1 \<and> suffix t2 s2 \<and>
           take (length s1 - length t1) s1 = take (length s2 - length t2) s2
       | _ \<Rightarrow> False))"

section \<open>An interpreter to run the model on\<close>

text \<open>
  The three builtins as CPython computes them on ASCII text: \<^verbatim>\<open>strip()\<close> removes the
  ASCII white space at both ends; \<^verbatim>\<open>int()\<close> reads an optional sign and decimal digits,
  with single underscores between digits; \<^verbatim>\<open>repr()\<close> quotes and escapes.
\<close>

definition is_space :: "char \<Rightarrow> bool" where
  "is_space c = (c \<in> set [CHR 0x09, CHR 0x0A, CHR 0x0B, CHR 0x0C, CHR 0x0D,
                           CHR 0x1C, CHR 0x1D, CHR 0x1E, CHR 0x1F, CHR 0x20])"

definition strip_ascii :: "string \<Rightarrow> string" where
  "strip_ascii s = rev (dropWhile is_space (rev (dropWhile is_space s)))"

definition digit_val :: "char \<Rightarrow> int option" where
  "digit_val c = map_of [(CHR ''0'', 0), (CHR ''1'', 1), (CHR ''2'', 2), (CHR ''3'', 3),
                         (CHR ''4'', 4), (CHR ''5'', 5), (CHR ''6'', 6), (CHR ''7'', 7),
                         (CHR ''8'', 8), (CHR ''9'', 9)] c"

fun int_digits :: "int \<Rightarrow> string \<Rightarrow> int option" where
  "int_digits acc [] = Some acc"
| "int_digits acc [c] = map_option (\<lambda>d. 10 * acc + d) (digit_val c)"
| "int_digits acc (c # d # ds) =
     (if c = CHR ''_'' then
        (case digit_val d of None \<Rightarrow> None | Some v \<Rightarrow> int_digits (10 * acc + v) ds)
      else
        (case digit_val c of None \<Rightarrow> None | Some v \<Rightarrow> int_digits (10 * acc + v) (d # ds)))"

definition int_ascii :: "string \<Rightarrow> int option" where
  "int_ascii s =
     (let t = strip_ascii s;
          neg = (t \<noteq> [] \<and> hd t = CHR ''-'');
          body = (if t \<noteq> [] \<and> (hd t = CHR ''-'' \<or> hd t = CHR ''+'') then tl t else t)
      in case body of
           [] \<Rightarrow> None
         | c # cs \<Rightarrow>
             (case digit_val c of
                None \<Rightarrow> None
              | Some v \<Rightarrow> map_option (\<lambda>n. if neg then - n else n) (int_digits v cs)))"

definition hex_char :: "nat \<Rightarrow> char" where
  "hex_char d = ''0123456789abcdef'' ! d"

definition escape_char :: "char \<Rightarrow> char \<Rightarrow> string" where
  "escape_char q c =
     (if c = q \<or> c = CHR 0x5C then [CHR 0x5C, c]
      else if c = CHR 0x0A then [CHR 0x5C, CHR ''n'']
      else if c = CHR 0x0D then [CHR 0x5C, CHR ''r'']
      else if c = CHR 0x09 then [CHR 0x5C, CHR ''t'']
      else if of_char c < (32::nat) \<or> c = CHR 0x7F then
        [CHR 0x5C, CHR ''x'', hex_char (of_char c div 16), hex_char (of_char c mod 16)]
      else [c])"

definition repr_ascii :: "string \<Rightarrow> string" where
  "repr_ascii s =
     (let q = (if CHR 0x27 \<in> set s \<and> CHR 0x22 \<notin> set s then CHR 0x22 else CHR 0x27)
      in [q] @ concat (map (escape_char q) s) @ [q])"

definition cpython :: python where
  "cpython = \<lparr>str_strip = strip_ascii, int_of_str = int_ascii, repr_of_str = repr_ascii\<rparr>"

subsection \<open>Sample environments and responses\<close>

text \<open>An environment whose upstream gives the same answer to every request, with the log
  level of a process that sets none.\<close>

definition env_of :: "string option \<Rightarrow> http_result \<Rightarrow> env" where
  "env_of k r =
     \<lparr>KORASTATS_API_KEY = k, http_get = (\<lambda>_. r),
      utc_now = \<lparr>year = 2025, month = 1, day = 2, hour = 3, minute = 4, second = 5\<rparr>,
      log_level = 30\<rparr>"

text \<open>The same environment with \<^verbatim>\<open>MCP_LOG_LEVEL=INFO\<close>.\<close>

definition at_info :: "env \<Rightarrow> env" where
  "at_info e = e\<lparr>log_level := 20\<rparr>"

text \<open>The same environment at a later time.\<close>

definition later :: "env \<Rightarrow> env" where
  "later e = e\<lparr>utc_now := \<lparr>year = 2026, month = 11, day = 4, hour = 10, minute = 20, second = 30\<rparr>\<rparr>"

text \<open>Responses of the nested shape: six seasons; one match, with its page counters; a page
  with no records; an application error with a payload beside it; an error that repeats the key.\<close>

definition six_seasons :: json where
  "six_seasons =
     JObj [(''root'', JObj [(''result'', JBool True),
                            (''object'', JObj [(''Data'', JList [JObj [(''id'', JInt 1)], JObj [(''id'', JInt 2)],
                                                                 JObj [(''id'', JInt 3)], JObj [(''id'', JInt 4)],
                                                                 JObj [(''id'', JInt 5)], JObj [(''id'', JInt 6)]])])])]"

definition demo_matches :: json where
  "demo_matches =
     JObj [(''root'', JObj [(''result'', JBool True),
                            (''object'', JObj [(''Data'', JList [JObj [(''matchId'', JInt 11)]]),
                                               (''PageCount'', JInt 4),
                                               (''current_page'', JInt 9)])])]"


definition season_not_found :: json where
  "season_not_found =
     JObj [(''root'', JObj [(''result'', JBool False), (''message'', JStr ''Season not found''),
                            (''object'', JObj [(''Data'', JList [JObj [(''id'', JInt 1)]])])])]"

definition key_echo :: json where
  "key_echo = JObj [(''root'', JObj [(''result'', JBool False), (''message'', JStr ''Invalid key s3cr3t'')])]"

text \<open>Responses of the flat shape: two events; a match without events; no match; nothing at all.\<close>

definition demo_events :: json where
  "demo_events =
     JObj [(''result'', JBool True),
           (''data'', JObj [(''match'', JObj [(''events'', JList [JObj [], JObj []])])])]"



definition empty_object :: json where
  "empty_object = JObj []"

text \<open>Responses outside the envelope: a root that is \<^verbatim>\<open>null\<close>; a body that is a list.\<close>

definition null_root :: json where
  "null_root = JObj [(''root'', JNull)]"

definition list_body :: json where
  "list_body = JList []"


definition sixty_events :: json where
  "sixty_events =
     JObj [(''result'', JBool True),
           (''data'', JObj [(''match'', JObj [(''events'', JList (replicate 60 (JObj [])))])])]"

text \<open>The line of an event that has no field.\<close>

definition blank_event_line :: string where
  "blank_event_line =
     ''- N/AH N/A'' @ [CHR 0x27] @ ''0'' @ [CHR 0x22] @ '' Unknown: Unknown player | Event '' @
     arrow @ '' Action (Unknown)''"

section \<open>Basic facts\<close>

declare dec_nat.simps [simp del]

subsection \<open>Results, lookups and loops\<close>

lemma bind_exc_simps [simp]:
  "bind_exc (Returned x) f = f x"
  "bind_exc (Raised err) f = Raised err"
  by (simp_all add: bind_exc_def)

lemma bind_exc_eq_Returned:
  "bind_exc m f = Returned y \<longleftrightarrow> (\<exists>x. m = Returned x \<and> f x = Returned y)"
  by (cases m) simp_all

lemma py_get_Returned:
  "py_get v k d = Returned x \<longleftrightarrow> (\<exists>kvs. v = JObj kvs \<and> x = (case map_of kvs k of None \<Rightarrow> d | Some w \<Rightarrow> w))"
  by (cases v) auto

lemma for_each_length: "for_each f xs = Returned ys \<Longrightarrow> length ys = length xs"
  by (induction xs arbitrary: ys) (auto simp: bind_exc_eq_Returned)

lemma preview_is_list:
  assumes "truthy v" "py_len v = Returned n" "py_slice v (min n k) = Returned p"
    and "for_each f p = Returned ls" "0 < k" "\<And>c. f (JStr c) = Raised AttributeError"
  shows "\<exists>xs. v = JList xs \<and> xs \<noteq> [] \<and> n = length xs \<and> p = take k xs"
proof (cases v)
  case (JStr s)
  with assms(1) obtain c cs where s: "s = c # cs" by (cases s) auto
  with JStr assms(2,3,5) obtain k' where "k = Suc k'" "p = JStr [c] # map (\<lambda>c. JStr [c]) (take (min (length cs) k') cs)"
    by (cases k) auto
  with assms(4,6) show ?thesis by simp
next
  case (JList xs)
  with assms show ?thesis by (auto simp: min_def)
qed (use assms in auto)

lemma line_of_str [simp]:
  "season_line rt (JStr c) = Raised AttributeError"
  "match_line rt (JStr c) = Raised AttributeError"
  "event_line rt (JStr c) = Raised AttributeError"
  by (simp_all add: season_line_def match_line_def event_line_def)

subsection \<open>The markers\<close>

lemma mark_prefix [simp]:
  "\<not> prefix report_mark (error_mark @ s)"
  "\<not> prefix report_mark (warning_mark @ s)"
  "\<not> prefix warning_mark (error_mark @ s)"
  "\<not> prefix warning_mark (report_mark @ s)"
  "\<not> prefix error_mark (warning_mark @ s)"
  "\<not> prefix error_mark (report_mark @ s)"
  "prefix report_mark (report_mark @ s)"
  "prefix warning_mark (warning_mark @ s)"
  "prefix error_mark (error_mark @ s)"
  by (simp_all add: report_mark_def error_mark_def warning_mark_def)


subsection \<open>Evaluation\<close>

lemma cpython_simps [simp]:
  "str_strip cpython = strip_ascii" "int_of_str cpython = int_ascii" "repr_of_str cpython = repr_ascii"
  by (simp_all add: cpython_def)

lemma strip_examples:
  "strip_ascii ''  '' = []" "strip_ascii [] = []" "strip_ascii ''abc'' = ''abc''"
  "strip_ascii ''7'' = ''7''"
  by (simp_all add: strip_ascii_def is_space_def)

lemma int_examples:
  "int_ascii ''abc'' = None" "int_ascii ''7'' = Some 7"
  by (simp_all add: int_ascii_def strip_ascii_def is_space_def digit_val_def)

lemma str_int_examples:
  "str_int 1 = ''1''" "str_int 20 = ''20''" "str_int 10 = ''10''" "str_int 50 = ''50''"
  "str_int 404 = ''404''" "str_int 7 = ''7''" "str_int 6 = ''6''" "str_int 5 = ''5''"
  by code_simp+

lemma str_int_three: "str_int 3 = ''3''" by code_simp

lemma str_int_nine: "str_int 9 = ''9''" by code_simp


lemma is_reportE:
  assumes "is_report r"
  obtains s where "r = Returned s" "prefix report_mark s"
  using assms by (cases r) (auto simp: is_report_def)

subsection \<open>The request executor\<close>

text \<open>The effects of a call are assembled with \<open>@\<close> and \<open>written\<close>.\<close>

lemma requests_append [simp]: "requests (xs @ ys) = requests xs @ requests ys"
  by (induction xs rule: requests.induct) simp_all

lemma logs_append [simp]: "logs (xs @ ys) = logs xs @ logs ys"
  by (induction xs rule: logs.induct) simp_all

lemma logged_params_append [simp]: "logged_params (xs @ ys) = logged_params xs @ logged_params ys"
  by (induction xs rule: logged_params.induct) simp_all

lemma written_simps [simp]:
  "requests (written e s (LogInfo a p)) = []"
  "requests (written e s (LogError m)) = []"
  "requests (written e s (ClientLog q c)) = []"
  "logged_params (written e s (LogInfo a p)) = (if log_level e \<le> s then [p] else [])"
  "logged_params (written e s (LogError m)) = []"
  "logged_params (written e s (ClientLog q c)) = []"
  "logs (written e s (LogInfo a p)) = written e s (LogInfo a p)"
  "logs (written e s (LogError m)) = written e s (LogError m)"
  "logs (written e s (ClientLog q c)) = []"
  by (simp_all add: written_def)

lemma perform_request_no_key:
  "get_api_key rt e = [] \<Longrightarrow>
   perform_request rt e api xs =
     (Returned (Inl (error_mark @
        '' Error: Missing Korastats API key. Set Docker secret KORASTATS_API_KEY.'')), [])"
  by (simp add: perform_request_def)

lemma answered_Nil [simp]: "\<not> answered e [] payload"
  by (simp add: answered_def)

lemma request_params_two:
  "request_params rt k api [(''page_number'', JStr a), (''page_size'', JStr b)] =
     [(''module'', ''api''), (''api'', api), (''version'', ''V2''), (''response'', ''json''),
      (''lang'', ''en''), (''key'', k), (''page_number'', a), (''page_size'', b)]"
  by (simp add: request_params_def)

lemma request_params_three:
  "request_params rt k api [(''season_id'', JStr c), (''page_number'', JStr a), (''page_size'', JStr b)] =
     [(''module'', ''api''), (''api'', api), (''version'', ''V2''), (''response'', ''json''),
      (''lang'', ''en''), (''key'', k), (''season_id'', c), (''page_number'', a), (''page_size'', b)]"
  by (simp add: request_params_def)


lemma perform_request_requests:
  "requests (snd (perform_request rt e api xs)) =
     (if get_api_key rt e = [] then [] else [request_params rt (get_api_key rt e) api xs])"
  by (simp add: perform_request_def Let_def split: http_result.splits http_body.splits)

lemma perform_request_failure:
  assumes "perform_request rt e api xs = (res, fx)" "requests fx = [params]"
  shows "res = (case http_get e params of
                  RequestError msg \<Rightarrow> Returned (Inl (error_mark @ '' Error: '' @ msg))
                | Response code body \<Rightarrow>
                    if \<not> (200 \<le> code \<and> code \<le> 299)
                    then Returned (Inl (error_mark @ '' API Error: '' @ str_int (int code)))
                    else (case body of
                            InvalidJson msg \<Rightarrow>
                              Returned (Inl (error_mark @ '' Error: Received invalid JSON from Korastats.''))
                          | JsonRaises \<Rightarrow> Raised RecursionError
                          | Parsed payload \<Rightarrow> Returned (Inr payload)))"
proof -
  from assms(1) have fx: "fx = snd (perform_request rt e api xs)"
    and res: "res = fst (perform_request rt e api xs)" by simp_all
  from assms(2) have k: "get_api_key rt e \<noteq> []"
    and p: "params = request_params rt (get_api_key rt e) api xs"
    unfolding fx by (auto simp: perform_request_requests split: if_splits)
  show ?thesis unfolding res p using k
    by (simp add: perform_request_def Let_def split: http_result.splits http_body.splits)
qed

lemma perform_request_answered:
  "perform_request rt e api xs = (res, fx) \<Longrightarrow> answered e fx payload \<Longrightarrow>
     res = Returned (Inr payload)"
  by (auto simp: answered_def split: list.splits http_result.splits http_body.splits
           dest!: perform_request_failure)


lemma sent_perform_request:
  "get_api_key rt e \<noteq> [] \<Longrightarrow>
   sent (snd (perform_request rt e api xs)) k = map_of (request_params rt (get_api_key rt e) api xs) k"
  by (simp add: sent_def perform_request_requests)





subsection \<open>Validated arguments\<close>

lemma limit_arg_range: "limit_arg rt lim = Some L \<Longrightarrow> 1 \<le> L \<and> L \<le> 50"
  by (auto simp: limit_arg_def split: if_splits)

lemma int_at_least_1_cases:
  "str_strip rt raw = [] \<Longrightarrow> int_at_least_1 rt raw d = Some d"
  "str_strip rt raw \<noteq> [] \<Longrightarrow> int_of_str rt (str_strip rt raw) = Some n \<Longrightarrow> n < 1 \<Longrightarrow>
     int_at_least_1 rt raw d = Some 1"
  "str_strip rt raw \<noteq> [] \<Longrightarrow> int_of_str rt (str_strip rt raw) = Some n \<Longrightarrow> 1 \<le> n \<Longrightarrow>
     int_at_least_1 rt raw d = Some n"
  by (simp_all add: int_at_least_1_def)

lemma limit_arg_cases:
  "str_strip rt raw = [] \<Longrightarrow> limit_arg rt raw = Some 10"
  "str_strip rt raw \<noteq> [] \<Longrightarrow> int_of_str rt (str_strip rt raw) = Some n \<Longrightarrow> n < 1 \<Longrightarrow>
     limit_arg rt raw = Some 1"
  "str_strip rt raw \<noteq> [] \<Longrightarrow> int_of_str rt (str_strip rt raw) = Some n \<Longrightarrow> 50 < n \<Longrightarrow>
     limit_arg rt raw = Some 50"
  by (simp_all add: limit_arg_def)

subsection \<open>Success reports\<close>

lemma seasons_report:
  assumes "seasons_text rt e payload = Returned s" "prefix report_mark s"
  shows "\<exists>root obj xs lines tr tp cp msg.
           py_get payload ''root'' (JObj []) = Returned root \<and>
           py_get root ''object'' (JObj []) = Returned obj \<and>
           py_get obj ''Data'' (JList []) = Returned (JList xs) \<and>
           for_each (season_line rt) (take 5 xs) = Returned lines \<and>
           py_get obj ''total_records'' (JStr ''Unknown'') = Returned tr \<and>
           py_get obj ''pages'' (JStr ''Unknown'') = Returned tp \<and>
           py_get obj ''current_page'' (JStr ''Unknown'') = Returned cp \<and>
           py_get root ''message'' (JStr ''Success'') = Returned msg \<and>
           s = report_mark @ '' Seasons Overview:'' @ nl @
               ''- Records on page: '' @ str_int (int (length xs)) @ nl @
               ''- Total records: '' @ py_str rt tr @ nl @
               ''- Page: '' @ py_str rt cp @ '' of '' @ py_str rt tp @ nl @
               nl @
               ''Top seasons:'' @ nl @
               join nl lines @ nl @
               nl @
               ''Summary: '' @ py_str rt msg @ '' | Generated at '' @ iso_timestamp e"
proof -
  from assms(1) obtain root where root: "py_get payload ''root'' (JObj []) = Returned root"
    unfolding seasons_text_def by (auto simp: bind_exc_eq_Returned)
  from assms(1) root obtain result where result: "py_get root ''result'' JNull = Returned result"
    unfolding seasons_text_def by (auto simp: bind_exc_eq_Returned)
  have t: "truthy result"
    using assms root result unfolding seasons_text_def
    by (auto simp: bind_exc_eq_Returned split: if_splits)
  from assms(1) root result t obtain obj seasons where
    obj: "py_get root ''object'' (JObj []) = Returned obj" and
    seasons: "py_get obj ''Data'' (JList []) = Returned seasons"
    unfolding seasons_text_def by (auto simp: bind_exc_eq_Returned)
  have ts: "truthy seasons"
    using assms root result t obj seasons unfolding seasons_text_def
    by (auto simp: bind_exc_eq_Returned split: if_splits)
  from assms(1) root result t obj seasons ts obtain n preview lines where
    n: "py_len seasons = Returned n" and
    p: "py_slice seasons (min n 5) = Returned preview" and
    l: "for_each (season_line rt) preview = Returned lines"
    unfolding seasons_text_def by (auto simp: bind_exc_eq_Returned)
  from preview_is_list[OF ts n p l] obtain xs where
    xs: "seasons = JList xs" "n = length xs" "preview = take 5 xs" by auto
  show ?thesis
    using assms(1) root result t obj seasons ts n p l xs unfolding seasons_text_def
    by (auto simp: bind_exc_eq_Returned)
qed

lemma matches_report:
  assumes "matches_text rt e pv payload = Returned s" "prefix report_mark s"
  shows "\<exists>root obj xs lines rc tp msg.
           py_get payload ''root'' (JObj []) = Returned root \<and>
           py_get root ''object'' (JObj []) = Returned obj \<and>
           py_get obj ''Data'' (JList []) = Returned (JList xs) \<and>
           for_each (match_line rt) (take 5 xs) = Returned lines \<and>
           py_get obj ''RowsCount'' (JStr ''Unknown'') = Returned rc \<and>
           py_get obj ''PageCount'' (JStr ''Unknown'') = Returned tp \<and>
           py_get root ''message'' (JStr ''Success'') = Returned msg \<and>
           s = report_mark @ '' Match Overview:'' @ nl @
               ''- Matches on page: '' @ str_int (int (length xs)) @ nl @
               ''- Total matches: '' @ py_str rt rc @ nl @
               ''- Page: '' @ str_int pv @ '' of '' @ py_str rt tp @ nl @
               nl @
               ''Upcoming details:'' @ nl @
               join nl lines @ nl @
               nl @
               ''Summary: '' @ py_str rt msg @ '' | Generated at '' @ iso_timestamp e"
proof -
  from assms(1) obtain root where root: "py_get payload ''root'' (JObj []) = Returned root"
    unfolding matches_text_def by (auto simp: bind_exc_eq_Returned)
  from assms(1) root obtain result where result: "py_get root ''result'' JNull = Returned result"
    unfolding matches_text_def by (auto simp: bind_exc_eq_Returned)
  have t: "truthy result"
    using assms root result unfolding matches_text_def
    by (auto simp: bind_exc_eq_Returned split: if_splits)
  from assms(1) root result t obtain obj matches where
    obj: "py_get root ''object'' (JObj []) = Returned obj" and
    matches: "py_get obj ''Data'' (JList []) = Returned matches"
    unfolding matches_text_def by (auto simp: bind_exc_eq_Returned)
  have ts: "truthy matches"
    using assms root result t obj matches unfolding matches_text_def
    by (auto simp: bind_exc_eq_Returned split: if_splits)
  from assms(1) root result t obj matches ts obtain n preview lines where
    n: "py_len matches = Returned n" and
    p: "py_slice matches (min n 5) = Returned preview" and
    l: "for_each (match_line rt) preview = Returned lines"
    unfolding matches_text_def by (auto simp: bind_exc_eq_Returned)
  from preview_is_list[OF ts n p l] obtain xs where
    xs: "matches = JList xs" "n = length xs" "preview = take 5 xs" by auto
  show ?thesis
    using assms(1) root result t obj matches ts n p l xs unfolding matches_text_def
    by (auto simp: bind_exc_eq_Returned)
qed

lemma events_report:
  assumes "events_text rt e v L payload = Returned s" "prefix report_mark s" "1 \<le> L"
  shows "\<exists>data m xs lines h hn a an st sn msg.
           py_get payload ''data'' (JObj []) = Returned data \<and>
           py_get data ''match'' JNull = Returned m \<and>
           py_get m ''events'' (JList []) = Returned (JList xs) \<and>
           for_each (event_line rt) (take (nat L) xs) = Returned lines \<and>
           py_get m ''home'' JNull = Returned h \<and>
           py_get (py_or h (JObj [])) ''name'' JNull = Returned hn \<and>
           py_get m ''away'' JNull = Returned a \<and>
           py_get (py_or a (JObj [])) ''name'' JNull = Returned an \<and>
           py_get m ''status'' JNull = Returned st \<and>
           py_get (py_or st (JObj [])) ''strStatus'' JNull = Returned sn \<and>
           py_get payload ''message'' (JStr ''Success'') = Returned msg \<and>
           s = report_mark @ '' Match Events:'' @ nl @
               ''- Fixture: '' @ py_str rt (py_or hn (JStr ''Home'')) @ '' vs '' @
                 py_str rt (py_or an (JStr ''Away'')) @ nl @
               ''- Status: '' @ py_str rt (py_or sn (JStr ''Unknown'')) @ nl @
               ''- Total events: '' @ str_int (int (length xs)) @ nl @
               ''- Showing first '' @ str_int (int (length lines)) @
               '' events (limit '' @ str_int L @ '')'' @ nl @
               nl @
               ''Highlights:'' @ nl @
               join nl lines @ nl @
               nl @
               ''Summary: '' @ py_str rt msg @ '' | Generated at '' @ iso_timestamp e"
proof -
  from assms(1) obtain result where result: "py_get payload ''result'' JNull = Returned result"
    unfolding events_text_def by (auto simp: bind_exc_eq_Returned)
  have t: "truthy result"
    using assms result unfolding events_text_def
    by (auto simp: bind_exc_eq_Returned split: if_splits)
  from assms(1) result t obtain data m where
    data: "py_get payload ''data'' (JObj []) = Returned data" and
    m: "py_get data ''match'' JNull = Returned m"
    unfolding events_text_def by (auto simp: bind_exc_eq_Returned)
  have tm: "truthy m"
    using assms result t data m unfolding events_text_def
    by (auto simp: bind_exc_eq_Returned split: if_splits)
  from assms(1) result t data m tm obtain h hn a an st sn events where
    names: "py_get m ''home'' JNull = Returned h"
      "py_get (py_or h (JObj [])) ''name'' JNull = Returned hn"
      "py_get m ''away'' JNull = Returned a"
      "py_get (py_or a (JObj [])) ''name'' JNull = Returned an"
      "py_get m ''status'' JNull = Returned st"
      "py_get (py_or st (JObj [])) ''strStatus'' JNull = Returned sn" and
    events: "py_get m ''events'' (JList []) = Returned events"
    unfolding events_text_def by (auto simp: bind_exc_eq_Returned)
  have te: "truthy events"
    using assms result t data m tm names events unfolding events_text_def
    by (auto simp: bind_exc_eq_Returned split: if_splits)
  from assms(1) result t data m tm names events te obtain n preview lines where
    n: "py_len events = Returned n" and
    p: "py_slice events (min n (nat L)) = Returned preview" and
    l: "for_each (event_line rt) preview = Returned lines"
    unfolding events_text_def by (auto simp: bind_exc_eq_Returned)
  from assms(3) have "0 < nat L" by simp
  from preview_is_list[OF te n p l this] obtain xs where
    xs: "events = JList xs" "n = length xs" "preview = take (nat L) xs" by auto
  from l have len: "length preview = length lines" by (simp add: for_each_length)
  show ?thesis
    using assms(1) result t data m tm names events te n p l xs len unfolding events_text_def
    by (auto simp: bind_exc_eq_Returned Let_def)
qed

lemma seasons_report_lines:
  assumes "seasons_text rt e payload = Returned s" "prefix report_mark s"
  shows "\<exists>root obj xs lines mid rest.
           py_get payload ''root'' (JObj []) = Returned root \<and>
           py_get root ''object'' (JObj []) = Returned obj \<and>
           py_get obj ''Data'' (JList []) = Returned (JList xs) \<and>
           for_each (season_line rt) (take 5 xs) = Returned lines \<and>
           length lines = min (length xs) 5 \<and>
           s = report_mark @ '' Seasons Overview:'' @ nl @
               ''- Records on page: '' @ str_int (int (length xs)) @ nl @ mid @
               ''Top seasons:'' @ nl @
               join nl lines @ nl @ nl @ rest"
proof -
  from seasons_report [OF assms] obtain root obj xs lines tr tp cp msg where
    d: "py_get payload ''root'' (JObj []) = Returned root"
       "py_get root ''object'' (JObj []) = Returned obj"
       "py_get obj ''Data'' (JList []) = Returned (JList xs)"
       "for_each (season_line rt) (take 5 xs) = Returned lines" and
    s: "s = report_mark @ '' Seasons Overview:'' @ nl @
               ''- Records on page: '' @ str_int (int (length xs)) @ nl @
               ''- Total records: '' @ py_str rt tr @ nl @
               ''- Page: '' @ py_str rt cp @ '' of '' @ py_str rt tp @ nl @
               nl @
               ''Top seasons:'' @ nl @
               join nl lines @ nl @
               nl @
               ''Summary: '' @ py_str rt msg @ '' | Generated at '' @ iso_timestamp e"
    by blast
  let ?mid = "''- Total records: '' @ py_str rt tr @ nl @
               ''- Page: '' @ py_str rt cp @ '' of '' @ py_str rt tp @ nl @ nl"
  let ?rest = "''Summary: '' @ py_str rt msg @ '' | Generated at '' @ iso_timestamp e"
  have len: "length lines = min (length xs) 5"
    using for_each_length [OF d(4)] by (simp add: min.commute)
  have "s = report_mark @ '' Seasons Overview:'' @ nl @
               ''- Records on page: '' @ str_int (int (length xs)) @ nl @ ?mid @
               ''Top seasons:'' @ nl @
               join nl lines @ nl @ nl @ ?rest"
    using s by simp
  with d len show ?thesis by blast
qed

lemma matches_report_lines:
  assumes "matches_text rt e pv payload = Returned s" "prefix report_mark s"
  shows "\<exists>root obj xs lines mid rest.
           py_get payload ''root'' (JObj []) = Returned root \<and>
           py_get root ''object'' (JObj []) = Returned obj \<and>
           py_get obj ''Data'' (JList []) = Returned (JList xs) \<and>
           for_each (match_line rt) (take 5 xs) = Returned lines \<and>
           length lines = min (length xs) 5 \<and>
           s = report_mark @ '' Match Overview:'' @ nl @
               ''- Matches on page: '' @ str_int (int (length xs)) @ nl @ mid @
               ''Upcoming details:'' @ nl @
               join nl lines @ nl @ nl @ rest"
proof -
  from matches_report [OF assms] obtain root obj xs lines rc tp msg where
    d: "py_get payload ''root'' (JObj []) = Returned root"
       "py_get root ''object'' (JObj []) = Returned obj"
       "py_get obj ''Data'' (JList []) = Returned (JList xs)"
       "for_each (match_line rt) (take 5 xs) = Returned lines" and
    s: "s = report_mark @ '' Match Overview:'' @ nl @
               ''- Matches on page: '' @ str_int (int (length xs)) @ nl @
               ''- Total matches: '' @ py_str rt rc @ nl @
               ''- Page: '' @ str_int pv @ '' of '' @ py_str rt tp @ nl @
               nl @
               ''Upcoming details:'' @ nl @
               join nl lines @ nl @
               nl @
               ''Summary: '' @ py_str rt msg @ '' | Generated at '' @ iso_timestamp e"
    by blast
  let ?mid = "''- Total matches: '' @ py_str rt rc @ nl @
               ''- Page: '' @ str_int pv @ '' of '' @ py_str rt tp @ nl @ nl"
  let ?rest = "''Summary: '' @ py_str rt msg @ '' | Generated at '' @ iso_timestamp e"
  have len: "length lines = min (length xs) 5"
    using for_each_length [OF d(4)] by (simp add: min.commute)
  have "s = report_mark @ '' Match Overview:'' @ nl @
               ''- Matches on page: '' @ str_int (int (length xs)) @ nl @ ?mid @
               ''Upcoming details:'' @ nl @
               join nl lines @ nl @ nl @ ?rest"
    using s by simp
  with d len show ?thesis by blast
qed

lemma events_report_lines:
  assumes "events_text rt e v L payload = Returned s" "prefix report_mark s" "1 \<le> L"
  shows "\<exists>data m xs lines pre post.
           py_get payload ''data'' (JObj []) = Returned data \<and>
           py_get data ''match'' JNull = Returned m \<and>
           py_get m ''events'' (JList []) = Returned (JList xs) \<and>
           for_each (event_line rt) (take (nat L) xs) = Returned lines \<and>
           length lines = min (length xs) (nat L) \<and>
           s = pre @ ''- Total events: '' @ str_int (int (length xs)) @ nl @
               ''- Showing first '' @ str_int (int (length lines)) @
               '' events (limit '' @ str_int L @ '')'' @ nl @
               nl @
               ''Highlights:'' @ nl @
               join nl lines @ post"
proof -
  from events_report [OF assms] obtain data m xs lines hn an sn msg where
    d: "py_get payload ''data'' (JObj []) = Returned data"
       "py_get data ''match'' JNull = Returned m"
       "py_get m ''events'' (JList []) = Returned (JList xs)"
       "for_each (event_line rt) (take (nat L) xs) = Returned lines" and
    s: "s = report_mark @ '' Match Events:'' @ nl @
               ''- Fixture: '' @ py_str rt (py_or hn (JStr ''Home'')) @ '' vs '' @
                 py_str rt (py_or an (JStr ''Away'')) @ nl @
               ''- Status: '' @ py_str rt (py_or sn (JStr ''Unknown'')) @ nl @
               ''- Total events: '' @ str_int (int (length xs)) @ nl @
               ''- Showing first '' @ str_int (int (length lines)) @
               '' events (limit '' @ str_int L @ '')'' @ nl @
               nl @
               ''Highlights:'' @ nl @
               join nl lines @ nl @
               nl @
               ''Summary: '' @ py_str rt msg @ '' | Generated at '' @ iso_timestamp e"
    by blast
  let ?pre = "report_mark @ '' Match Events:'' @ nl @
               ''- Fixture: '' @ py_str rt (py_or hn (JStr ''Home'')) @ '' vs '' @
                 py_str rt (py_or an (JStr ''Away'')) @ nl @
               ''- Status: '' @ py_str rt (py_or sn (JStr ''Unknown'')) @ nl"
  let ?post = "nl @ nl @ ''Summary: '' @ py_str rt msg @ '' | Generated at '' @ iso_timestamp e"
  have len: "length lines = min (length xs) (nat L)"
    using for_each_length [OF d(4)] by (simp add: min.commute)
  have "s = ?pre @ ''- Total events: '' @ str_int (int (length xs)) @ nl @
               ''- Showing first '' @ str_int (int (length lines)) @
               '' events (limit '' @ str_int L @ '')'' @ nl @
               nl @
               ''Highlights:'' @ nl @
               join nl lines @ ?post"
    using s by simp
  with d len show ?thesis by blast
qed

subsection \<open>Errors and empty results\<close>

lemma seasons_text_error:
  assumes "py_get payload ''root'' (JObj []) = Returned root"
    "py_get root ''result'' JNull = Returned flag" "\<not> truthy flag"
    "py_get root ''message'' (JStr ''Korastats API returned an error.'') = Returned msg"
  shows "seasons_text rt e payload = Returned (error_mark @ '' API Error: '' @ py_str rt msg)"
  using assms by (simp add: seasons_text_def)

lemma matches_text_error:
  assumes "py_get payload ''root'' (JObj []) = Returned root"
    "py_get root ''result'' JNull = Returned flag" "\<not> truthy flag"
    "py_get root ''message'' (JStr ''Korastats API returned an error.'') = Returned msg"
  shows "matches_text rt e pv payload = Returned (error_mark @ '' API Error: '' @ py_str rt msg)"
  using assms by (simp add: matches_text_def)

lemma events_text_error:
  assumes "py_get payload ''result'' JNull = Returned flag" "\<not> truthy flag"
    "py_get payload ''message'' (JStr ''Korastats API returned an error.'') = Returned msg"
  shows "events_text rt e v L payload = Returned (error_mark @ '' API Error: '' @ py_str rt msg)"
  using assms by (simp add: events_text_def)

text \<open>Outside the envelope the tools raise: a root that is present and is not an object
  has no \<^verbatim>\<open>get\<close>.\<close>

lemma null_root_raises:
  "seasons_text rt e (JObj [(''root'', JNull)]) = Raised AttributeError"
  "matches_text rt e pv (JObj [(''root'', JNull)]) = Raised AttributeError"
  "events_text rt e v L (JList []) = Raised AttributeError"
  by (simp_all add: seasons_text_def matches_text_def events_text_def)








subsection \<open>The timestamp\<close>

lemma same_but_timestamp_iff:
  "same_but_timestamp (Returned s1) t1 (Returned s2) t2 \<longleftrightarrow>
     s1 = s2 \<or> (\<exists>body. s1 = body @ t1 \<and> s2 = body @ t2)"
  by (auto simp: same_but_timestamp_def suffix_def)

lemma sbt_refl: "same_but_timestamp a t1 a t2"
  by (simp add: same_but_timestamp_def)

lemma sbt_base: "same_but_timestamp (Returned t1) t1 (Returned t2) t2"
  unfolding same_but_timestamp_iff by (rule disjI2, rule exI [of _ "[]"]) simp

lemma sbt_app:
  assumes "same_but_timestamp (Returned x1) t1 (Returned x2) t2"
  shows "same_but_timestamp (Returned (a @ x1)) t1 (Returned (a @ x2)) t2"
proof -
  from assms consider "x1 = x2" | body where "x1 = body @ t1" "x2 = body @ t2"
    unfolding same_but_timestamp_iff by blast
  then show ?thesis
  proof cases
    case 1
    then show ?thesis by (simp add: sbt_refl)
  next
    case 2
    then have "a @ x1 = (a @ body) @ t1" "a @ x2 = (a @ body) @ t2" by simp_all
    then show ?thesis unfolding same_but_timestamp_iff by blast
  qed
qed

lemma sbt_bind:
  assumes "\<And>x. same_but_timestamp (f x) t1 (g x) t2"
  shows "same_but_timestamp (bind_exc m f) t1 (bind_exc m g) t2"
  using assms by (cases m) (simp_all add: sbt_refl)

lemma sbt_if:
  assumes "same_but_timestamp a t1 b t2" "same_but_timestamp a' t1 b' t2"
  shows "same_but_timestamp (if c then a else a') t1 (if c then b else b') t2"
  using assms by simp

lemma seasons_text_clock:
  "same_but_timestamp (seasons_text rt e1 payload) (iso_timestamp e1)
                      (seasons_text rt e2 payload) (iso_timestamp e2)"
  unfolding seasons_text_def
  by (intro sbt_bind sbt_if sbt_app sbt_base | rule sbt_refl)+

lemma matches_text_clock:
  "same_but_timestamp (matches_text rt e1 pv payload) (iso_timestamp e1)
                      (matches_text rt e2 pv payload) (iso_timestamp e2)"
  unfolding matches_text_def
  by (intro sbt_bind sbt_if sbt_app sbt_base | rule sbt_refl)+

lemma events_text_clock:
  "same_but_timestamp (events_text rt e1 v L payload) (iso_timestamp e1)
                      (events_text rt e2 v L payload) (iso_timestamp e2)"
  unfolding events_text_def Let_def
  by (intro sbt_bind sbt_if sbt_app sbt_base | rule sbt_refl)+


subsection \<open>The tools as a whole\<close>




lemma list_seasons_answered:
  assumes "answered e (snd (list_seasons rt e pn ps)) payload"
  shows "fst (list_seasons rt e pn ps) = seasons_text rt e payload"
  using assms unfolding list_seasons_def
  by (auto split: option.splits prod.splits sum.splits exc.splits dest: perform_request_answered)

lemma list_season_matches_answered:
  assumes "answered e (snd (list_season_matches rt e sid pn ps)) payload"
  shows "\<exists>pv. int_at_least_1 rt pn 1 = Some pv \<and>
              fst (list_season_matches rt e sid pn ps) = matches_text rt e pv payload"
  using assms unfolding list_season_matches_def
  by (auto split: option.splits prod.splits sum.splits exc.splits if_splits dest: perform_request_answered)

lemma get_match_events_answered:
  assumes "answered e (snd (get_match_events rt e mid lim)) payload"
  shows "\<exists>v L. int_of_str rt (str_strip rt mid) = Some v \<and> limit_arg rt lim = Some L \<and>
              fst (get_match_events rt e mid lim) = events_text rt e v L payload"
  using assms unfolding get_match_events_def
  by (auto split: option.splits prod.splits sum.splits exc.splits if_splits dest: perform_request_answered)




lemma sent_list_seasons:
  assumes "get_api_key rt e \<noteq> []" "int_at_least_1 rt pn 1 = Some pv" "int_at_least_1 rt ps 20 = Some sv"
  shows "sent (snd (list_seasons rt e pn ps)) ''page_number'' = Some (str_int pv)"
    and "sent (snd (list_seasons rt e pn ps)) ''page_size'' = Some (str_int sv)"
proof -
  let ?r = "perform_request rt e ''SeasonList''
              [(''page_number'', JStr (str_int pv)), (''page_size'', JStr (str_int sv))]"
  have "snd (list_seasons rt e pn ps) = snd ?r"
    using assms(2,3) by (simp add: list_seasons_def split: prod.splits sum.splits exc.splits)
  then show "sent (snd (list_seasons rt e pn ps)) ''page_number'' = Some (str_int pv)"
    and "sent (snd (list_seasons rt e pn ps)) ''page_size'' = Some (str_int sv)"
    using assms(1) by (simp_all add: sent_perform_request request_params_two)
qed

lemma sent_list_season_matches:
  assumes "get_api_key rt e \<noteq> []" "str_strip rt sid \<noteq> []" "int_of_str rt (str_strip rt sid) = Some v"
    "int_at_least_1 rt pn 1 = Some pv" "int_at_least_1 rt ps 20 = Some sv"
  shows "sent (snd (list_season_matches rt e sid pn ps)) ''page_number'' = Some (str_int pv)"
    and "sent (snd (list_season_matches rt e sid pn ps)) ''page_size'' = Some (str_int sv)"
    and "sent (snd (list_season_matches rt e sid pn ps)) ''season_id'' = Some (str_int v)"
proof -
  let ?r = "perform_request rt e ''SeasonMatchList''
              [(''season_id'', JStr (str_int v)), (''page_number'', JStr (str_int pv)),
               (''page_size'', JStr (str_int sv))]"
  have "snd (list_season_matches rt e sid pn ps) = snd ?r"
    using assms(2-5) by (simp add: list_season_matches_def split: prod.splits sum.splits exc.splits)
  then show "sent (snd (list_season_matches rt e sid pn ps)) ''page_number'' = Some (str_int pv)"
    and "sent (snd (list_season_matches rt e sid pn ps)) ''page_size'' = Some (str_int sv)"
    and "sent (snd (list_season_matches rt e sid pn ps)) ''season_id'' = Some (str_int v)"
    using assms(1) by (simp_all add: sent_perform_request request_params_three)
qed






subsection \<open>From the response to the result\<close>





lemma take_min_length [simp]: "take (min (length xs) n) xs = take n xs"
  by (simp add: min_def)



lemma events_text_report:
  assumes "py_get payload ''result'' JNull = Returned flag" "truthy flag"
    "py_get payload ''data'' (JObj []) = Returned data"
    "py_get data ''match'' JNull = Returned m"
    "py_get m ''home'' JNull = Returned h" "py_get (py_or h (JObj [])) ''name'' JNull = Returned hn"
    "py_get m ''away'' JNull = Returned a" "py_get (py_or a (JObj [])) ''name'' JNull = Returned an"
    "py_get m ''status'' JNull = Returned st" "py_get (py_or st (JObj [])) ''strStatus'' JNull = Returned sn"
    "py_get m ''events'' (JList []) = Returned (JList xs)" "xs \<noteq> []"
    "for_each (event_line rt) (take (nat L) xs) = Returned lines"
    "py_get payload ''message'' (JStr ''Success'') = Returned msg"
  shows "events_text rt e v L payload =
           Returned (report_mark @ '' Match Events:'' @ nl @
               ''- Fixture: '' @ py_str rt (py_or hn (JStr ''Home'')) @ '' vs '' @
                 py_str rt (py_or an (JStr ''Away'')) @ nl @
               ''- Status: '' @ py_str rt (py_or sn (JStr ''Unknown'')) @ nl @
               ''- Total events: '' @ str_int (int (length xs)) @ nl @
               ''- Showing first '' @ str_int (int (length lines)) @
               '' events (limit '' @ str_int L @ '')'' @ nl @
               nl @
               ''Highlights:'' @ nl @
               join nl lines @ nl @
               nl @
               ''Summary: '' @ py_str rt msg @ '' | Generated at '' @ iso_timestamp e)"
proof -
  from assms(11) obtain mk where m: "m = JObj mk" by (auto simp: py_get_Returned)
  from assms(11,12) have t: "truthy m" unfolding m by (cases mk) auto
  from for_each_length [OF assms(13)] have len: "length (take (nat L) xs) = length lines" by simp
  show ?thesis
    using assms t len unfolding events_text_def
    by (simp add: Let_def del: length_take)
qed

lemma str_int_more:
  "str_int 2 = ''2''" "str_int 60 = ''60''"
  by code_simp+

section \<open>The claims\<close>

subsection \<open>C1: the count in the header\<close>

text \<open>
  C1 (as amended). In every success report of \<^verbatim>\<open>get_match_events\<close> the number printed after
  \<^verbatim>\<open>Showing first\<close> is the number of event lines rendered, which is the smaller of the number
  of events and the clamped limit (between 1 and 50). In every success report of
  \<^verbatim>\<open>list_seasons\<close> and \<^verbatim>\<open>list_season_matches\<close> the number printed in the header
  (\<^verbatim>\<open>Records on page\<close>, \<^verbatim>\<open>Matches on page\<close>) is the length of the whole record list of the
  response, while the lines rendered are those of its first five records at most.
\<close>

theorem report_counts:
  "(answered e (snd (list_seasons rt e pn ps)) payload \<and>
    fst (list_seasons rt e pn ps) = Returned s \<and> prefix report_mark s \<longrightarrow>
      (\<exists>root obj xs lines mid rest.
         py_get payload ''root'' (JObj []) = Returned root \<and>
         py_get root ''object'' (JObj []) = Returned obj \<and>
         py_get obj ''Data'' (JList []) = Returned (JList xs) \<and>
         for_each (season_line rt) (take 5 xs) = Returned lines \<and>
         length lines = min (length xs) 5 \<and>
         s = report_mark @ '' Seasons Overview:'' @ nl @
             ''- Records on page: '' @ str_int (int (length xs)) @ nl @ mid @
             ''Top seasons:'' @ nl @
             join nl lines @ nl @ nl @ rest)) \<and>
   (answered e (snd (list_season_matches rt e sid pn ps)) payload \<and>
    fst (list_season_matches rt e sid pn ps) = Returned s \<and> prefix report_mark s \<longrightarrow>
      (\<exists>root obj xs lines mid rest.
         py_get payload ''root'' (JObj []) = Returned root \<and>
         py_get root ''object'' (JObj []) = Returned obj \<and>
         py_get obj ''Data'' (JList []) = Returned (JList xs) \<and>
         for_each (match_line rt) (take 5 xs) = Returned lines \<and>
         length lines = min (length xs) 5 \<and>
         s = report_mark @ '' Match Overview:'' @ nl @
             ''- Matches on page: '' @ str_int (int (length xs)) @ nl @ mid @
             ''Upcoming details:'' @ nl @
             join nl lines @ nl @ nl @ rest)) \<and>
   (answered e (snd (get_match_events rt e mid lim)) payload \<and>
    fst (get_match_events rt e mid lim) = Returned s \<and> prefix report_mark s \<longrightarrow>
      (\<exists>L data m xs lines pre post.
         limit_arg rt lim = Some L \<and> 1 \<le> L \<and> L \<le> 50 \<and>
         py_get payload ''data'' (JObj []) = Returned data \<and>
         py_get data ''match'' JNull = Returned m \<and>
         py_get m ''events'' (JList []) = Returned (JList xs) \<and>
         for_each (event_line rt) (take (nat L) xs) = Returned lines \<and>
         length lines = min (length xs) (nat L) \<and>
         s = pre @ ''- Total events: '' @ str_int (int (length xs)) @ nl @
             ''- Showing first '' @ str_int (int (length lines)) @
             '' events (limit '' @ str_int L @ '')'' @ nl @
             nl @
             ''Highlights:'' @ nl @
             join nl lines @ post))"
proof (intro conjI impI)
  assume a: "answered e (snd (list_seasons rt e pn ps)) payload \<and>
    fst (list_seasons rt e pn ps) = Returned s \<and> prefix report_mark s"
  then have "seasons_text rt e payload = Returned s"
    using list_seasons_answered [of e rt pn ps payload] by simp
  with a show "\<exists>root obj xs lines mid rest.
         py_get payload ''root'' (JObj []) = Returned root \<and>
         py_get root ''object'' (JObj []) = Returned obj \<and>
         py_get obj ''Data'' (JList []) = Returned (JList xs) \<and>
         for_each (season_line rt) (take 5 xs) = Returned lines \<and>
         length lines = min (length xs) 5 \<and>
         s = report_mark @ '' Seasons Overview:'' @ nl @
             ''- Records on page: '' @ str_int (int (length xs)) @ nl @ mid @
             ''Top seasons:'' @ nl @
             join nl lines @ nl @ nl @ rest"
    using seasons_report_lines [of rt e payload s] by blast
next
  assume a: "answered e (snd (list_season_matches rt e sid pn ps)) payload \<and>
    fst (list_season_matches rt e sid pn ps) = Returned s \<and> prefix report_mark s"
  then obtain pv where "matches_text rt e pv payload = Returned s"
    using list_season_matches_answered [of e rt sid pn ps payload] by auto
  with a show "\<exists>root obj xs lines mid rest.
         py_get payload ''root'' (JObj []) = Returned root \<and>
         py_get root ''object'' (JObj []) = Returned obj \<and>
         py_get obj ''Data'' (JList []) = Returned (JList xs) \<and>
         for_each (match_line rt) (take 5 xs) = Returned lines \<and>
         length lines = min (length xs) 5 \<and>
         s = report_mark @ '' Match Overview:'' @ nl @
             ''- Matches on page: '' @ str_int (int (length xs)) @ nl @ mid @
             ''Upcoming details:'' @ nl @
             join nl lines @ nl @ nl @ rest"
    using matches_report_lines [of rt e pv payload s] by blast
next
  assume a: "answered e (snd (get_match_events rt e mid lim)) payload \<and>
    fst (get_match_events rt e mid lim) = Returned s \<and> prefix report_mark s"
  then obtain v L where vL: "limit_arg rt lim = Some L" "events_text rt e v L payload = Returned s"
    using get_match_events_answered [of e rt mid lim payload] by auto
  from limit_arg_range [OF vL(1)] have r: "1 \<le> L" "L \<le> 50" by simp_all
  from events_report_lines [OF vL(2) _ r(1)] a vL(1) r
  show "\<exists>L data m xs lines pre post.
         limit_arg rt lim = Some L \<and> 1 \<le> L \<and> L \<le> 50 \<and>
         py_get payload ''data'' (JObj []) = Returned data \<and>
         py_get data ''match'' JNull = Returned m \<and>
         py_get m ''events'' (JList []) = Returned (JList xs) \<and>
         for_each (event_line rt) (take (nat L) xs) = Returned lines \<and>
         length lines = min (length xs) (nat L) \<and>
         s = pre @ ''- Total events: '' @ str_int (int (length xs)) @ nl @
             ''- Showing first '' @ str_int (int (length lines)) @
             '' events (limit '' @ str_int L @ '')'' @ nl @
             nl @
             ''Highlights:'' @ nl @
             join nl lines @ post"
    by blast
qed

text \<open>
  One success report of each tool.
\<close>

theorem report_counts_witness:
  "answered (env_of (Some ''k'') (Response 200 (Parsed six_seasons)))
     (snd (list_seasons cpython (env_of (Some ''k'') (Response 200 (Parsed six_seasons))) [] [])) six_seasons \<and>
   is_report (fst (list_seasons cpython (env_of (Some ''k'') (Response 200 (Parsed six_seasons))) [] [])) \<and>
   (\<exists>s (xs::json list) lines mid rest.
      fst (list_seasons cpython (env_of (Some ''k'') (Response 200 (Parsed six_seasons))) [] []) = Returned s \<and>
      length lines = min (length xs) 5 \<and>
      s = report_mark @ '' Seasons Overview:'' @ nl @
          ''- Records on page: '' @ str_int (int (length xs)) @ nl @ mid @
          ''Top seasons:'' @ nl @ join nl lines @ nl @ nl @ rest) \<and>
   answered (env_of (Some ''k'') (Response 200 (Parsed demo_matches)))
     (snd (list_season_matches cpython (env_of (Some ''k'') (Response 200 (Parsed demo_matches))) ''7'' [] []))
     demo_matches \<and>
   is_report (fst (list_season_matches cpython (env_of (Some ''k'') (Response 200 (Parsed demo_matches))) ''7'' [] [])) \<and>
   (\<exists>s (xs::json list) lines mid rest.
      fst (list_season_matches cpython (env_of (Some ''k'') (Response 200 (Parsed demo_matches))) ''7'' [] []) =
        Returned s \<and>
      length lines = min (length xs) 5 \<and>
      s = report_mark @ '' Match Overview:'' @ nl @
          ''- Matches on page: '' @ str_int (int (length xs)) @ nl @ mid @
          ''Upcoming details:'' @ nl @ join nl lines @ nl @ nl @ rest) \<and>
   answered (env_of (Some ''k'') (Response 200 (Parsed demo_events)))
     (snd (get_match_events cpython (env_of (Some ''k'') (Response 200 (Parsed demo_events))) ''501'' ''1''))
     demo_events \<and>
   is_report (fst (get_match_events cpython (env_of (Some ''k'') (Response 200 (Parsed demo_events))) ''501'' ''1'')) \<and>
   (\<exists>s L (xs::json list) lines pre post.
      fst (get_match_events cpython (env_of (Some ''k'') (Response 200 (Parsed demo_events))) ''501'' ''1'') =
        Returned s \<and>
      length lines = min (length xs) (nat L) \<and>
      s = pre @ ''- Total events: '' @ str_int (int (length xs)) @ nl @
          ''- Showing first '' @ str_int (int (length lines)) @
          '' events (limit '' @ str_int L @ '')'' @ nl @ nl @
          ''Highlights:'' @ nl @ join nl lines @ post)"
proof -
  let ?e1 = "env_of (Some ''k'') (Response 200 (Parsed six_seasons))"
  let ?e2 = "env_of (Some ''k'') (Response 200 (Parsed demo_matches))"
  let ?e3 = "env_of (Some ''k'') (Response 200 (Parsed demo_events))"
  have a1: "answered ?e1 (snd (list_seasons cpython ?e1 [] [])) six_seasons" by code_simp
  have a2: "answered ?e2 (snd (list_season_matches cpython ?e2 ''7'' [] [])) demo_matches" by code_simp
  have a3: "answered ?e3 (snd (get_match_events cpython ?e3 ''501'' ''1'')) demo_events" by code_simp
  have r1: "is_report (fst (list_seasons cpython ?e1 [] []))" by code_simp
  have r2: "is_report (fst (list_season_matches cpython ?e2 ''7'' [] []))" by code_simp
  have r3: "is_report (fst (get_match_events cpython ?e3 ''501'' ''1''))" by code_simp
  from r1 obtain s1 where s1: "fst (list_seasons cpython ?e1 [] []) = Returned s1" "prefix report_mark s1"
    by (rule is_reportE)
  from r2 obtain s2 where s2: "fst (list_season_matches cpython ?e2 ''7'' [] []) = Returned s2" "prefix report_mark s2"
    by (rule is_reportE)
  from r3 obtain s3 where s3: "fst (get_match_events cpython ?e3 ''501'' ''1'') = Returned s3" "prefix report_mark s3"
    by (rule is_reportE)
  from report_counts [where rt = cpython and e = ?e1 and pn = "[]" and ps = "[]"
        and payload = six_seasons and s = s1, THEN conjunct1, THEN mp,
        OF conjI [OF a1 conjI [OF s1]]]
  obtain xs1 :: "json list" and lines1 mid1 rest1 where
    "length lines1 = min (length xs1) 5"
    "s1 = report_mark @ '' Seasons Overview:'' @ nl @
          ''- Records on page: '' @ str_int (int (length xs1)) @ nl @ mid1 @
          ''Top seasons:'' @ nl @ join nl lines1 @ nl @ nl @ rest1"
    by (elim exE conjE) (rule that)
  with s1(1) have c1: "\<exists>s (xs::json list) lines mid rest.
      fst (list_seasons cpython ?e1 [] []) = Returned s \<and>
      length lines = min (length xs) 5 \<and>
      s = report_mark @ '' Seasons Overview:'' @ nl @
          ''- Records on page: '' @ str_int (int (length xs)) @ nl @ mid @
          ''Top seasons:'' @ nl @ join nl lines @ nl @ nl @ rest"
    by (intro exI conjI)
  from report_counts [where rt = cpython and e = ?e2 and sid = "''7''" and pn = "[]" and ps = "[]"
        and payload = demo_matches and s = s2, THEN conjunct2, THEN conjunct1, THEN mp,
        OF conjI [OF a2 conjI [OF s2]]]
  obtain xs2 :: "json list" and lines2 mid2 rest2 where
    "length lines2 = min (length xs2) 5"
    "s2 = report_mark @ '' Match Overview:'' @ nl @
          ''- Matches on page: '' @ str_int (int (length xs2)) @ nl @ mid2 @
          ''Upcoming details:'' @ nl @ join nl lines2 @ nl @ nl @ rest2"
    by (elim exE conjE) (rule that)
  with s2(1) have c2: "\<exists>s (xs::json list) lines mid rest.
      fst (list_season_matches cpython ?e2 ''7'' [] []) = Returned s \<and>
      length lines = min (length xs) 5 \<and>
      s = report_mark @ '' Match Overview:'' @ nl @
          ''- Matches on page: '' @ str_int (int (length xs)) @ nl @ mid @
          ''Upcoming details:'' @ nl @ join nl lines @ nl @ nl @ rest"
    by (intro exI conjI)
  from report_counts [where rt = cpython and e = ?e3 and mid = "''501''" and lim = "''1''"
        and payload = demo_events and s = s3, THEN conjunct2, THEN conjunct2, THEN mp,
        OF conjI [OF a3 conjI [OF s3]]]
  obtain L3 and xs3 :: "json list" and lines3 pre3 post3 where
    "length lines3 = min (length xs3) (nat L3)"
    "s3 = pre3 @ ''- Total events: '' @ str_int (int (length xs3)) @ nl @
          ''- Showing first '' @ str_int (int (length lines3)) @
          '' events (limit '' @ str_int L3 @ '')'' @ nl @ nl @
          ''Highlights:'' @ nl @ join nl lines3 @ post3"
    by (elim exE conjE) (rule that)
  with s3(1) have c3: "\<exists>s L (xs::json list) lines pre post.
      fst (get_match_events cpython ?e3 ''501'' ''1'') = Returned s \<and>
      length lines = min (length xs) (nat L) \<and>
      s = pre @ ''- Total events: '' @ str_int (int (length xs)) @ nl @
          ''- Showing first '' @ str_int (int (length lines)) @
          '' events (limit '' @ str_int L @ '')'' @ nl @ nl @
          ''Highlights:'' @ nl @ join nl lines @ post"
    by (intro exI conjI)
  from a1 a2 a3 r1 r2 r3 c1 c2 c3 show ?thesis by (intro conjI)
qed

text \<open>
  C1 as stated fails for \<^verbatim>\<open>list_seasons\<close>: with six seasons in the response the header
  prints 6, the full length, above a preview of five lines.
\<close>

theorem header_count_counterexample:
  "fst (list_seasons cpython (env_of (Some ''k'') (Response 200 (Parsed six_seasons))) [] []) =
     Returned (report_mark @ '' Seasons Overview:'' @ nl @
               ''- Records on page: 6'' @ nl @
               ''- Total records: Unknown'' @ nl @
               ''- Page: Unknown of Unknown'' @ nl @
               nl @
               ''Top seasons:'' @ nl @
               ''- ID 1: Unknown | Unknown | Unknown '' @ arrow @ '' Unknown'' @ nl @
               ''- ID 2: Unknown | Unknown | Unknown '' @ arrow @ '' Unknown'' @ nl @
               ''- ID 3: Unknown | Unknown | Unknown '' @ arrow @ '' Unknown'' @ nl @
               ''- ID 4: Unknown | Unknown | Unknown '' @ arrow @ '' Unknown'' @ nl @
               ''- ID 5: Unknown | Unknown | Unknown '' @ arrow @ '' Unknown'' @ nl @
               nl @
               ''Summary: Success | Generated at 2025-01-02T03:04:05Z'')"
  by code_simp

subsection \<open>C2: application errors\<close>

text \<open>
  C2 (as amended). Let a call of a tool be answered with a JSON object whose envelope is
  an object: the response itself for \<^verbatim>\<open>get_match_events\<close>; its \<^verbatim>\<open>root\<close>, or the empty
  object when it has none, for \<^verbatim>\<open>list_seasons\<close> and \<^verbatim>\<open>list_season_matches\<close>. When the
  success flag of the envelope is not true (\<^verbatim>\<open>false\<close>, absent, or any other value Python
  counts as false), the tool returns \<^verbatim>\<open>API Error: <message>\<close> behind the error marker,
  where the message is the envelope's \<^verbatim>\<open>message\<close> field, or
  \<^verbatim>\<open>Korastats API returned an error.\<close> when there is none. The text depends on nothing
  else of the response, the payload subtree included.
\<close>

theorem application_error:
  "(answered e (snd (list_seasons rt e pn ps)) payload \<and>
    py_get payload ''root'' (JObj []) = Returned root \<and>
    py_get root ''result'' JNull = Returned flag \<and> \<not> truthy flag \<and>
    py_get root ''message'' (JStr ''Korastats API returned an error.'') = Returned msg \<longrightarrow>
      fst (list_seasons rt e pn ps) = Returned (error_mark @ '' API Error: '' @ py_str rt msg)) \<and>
   (answered e (snd (list_season_matches rt e sid pn ps)) payload \<and>
    py_get payload ''root'' (JObj []) = Returned root \<and>
    py_get root ''result'' JNull = Returned flag \<and> \<not> truthy flag \<and>
    py_get root ''message'' (JStr ''Korastats API returned an error.'') = Returned msg \<longrightarrow>
      fst (list_season_matches rt e sid pn ps) = Returned (error_mark @ '' API Error: '' @ py_str rt msg)) \<and>
   (answered e (snd (get_match_events rt e mid lim)) payload \<and>
    py_get payload ''result'' JNull = Returned flag \<and> \<not> truthy flag \<and>
    py_get payload ''message'' (JStr ''Korastats API returned an error.'') = Returned msg \<longrightarrow>
      fst (get_match_events rt e mid lim) = Returned (error_mark @ '' API Error: '' @ py_str rt msg))"
proof (intro conjI impI)
  assume a: "answered e (snd (list_seasons rt e pn ps)) payload \<and>
    py_get payload ''root'' (JObj []) = Returned root \<and>
    py_get root ''result'' JNull = Returned flag \<and> \<not> truthy flag \<and>
    py_get root ''message'' (JStr ''Korastats API returned an error.'') = Returned msg"
  then have "fst (list_seasons rt e pn ps) = seasons_text rt e payload"
    by (simp add: list_seasons_answered)
  with a show "fst (list_seasons rt e pn ps) = Returned (error_mark @ '' API Error: '' @ py_str rt msg)"
    using seasons_text_error [of payload root flag msg rt e] by simp
next
  assume a: "answered e (snd (list_season_matches rt e sid pn ps)) payload \<and>
    py_get payload ''root'' (JObj []) = Returned root \<and>
    py_get root ''result'' JNull = Returned flag \<and> \<not> truthy flag \<and>
    py_get root ''message'' (JStr ''Korastats API returned an error.'') = Returned msg"
  then obtain pv where "fst (list_season_matches rt e sid pn ps) = matches_text rt e pv payload"
    using list_season_matches_answered [of e rt sid pn ps payload] by auto
  with a show "fst (list_season_matches rt e sid pn ps) =
      Returned (error_mark @ '' API Error: '' @ py_str rt msg)"
    using matches_text_error [of payload root flag msg rt e pv] by simp
next
  assume a: "answered e (snd (get_match_events rt e mid lim)) payload \<and>
    py_get payload ''result'' JNull = Returned flag \<and> \<not> truthy flag \<and>
    py_get payload ''message'' (JStr ''Korastats API returned an error.'') = Returned msg"
  then obtain v L where "fst (get_match_events rt e mid lim) = events_text rt e v L payload"
    using get_match_events_answered [of e rt mid lim payload] by auto
  with a show "fst (get_match_events rt e mid lim) =
      Returned (error_mark @ '' API Error: '' @ py_str rt msg)"
    using events_text_error [of payload flag msg rt e v L] by simp
qed

text \<open>
  The envelope \<^verbatim>\<open>{result: false, message: "Season not found"}\<close> with a payload beside it,
  and an empty response, where flag and message are both absent.
\<close>

theorem application_error_witness:
  "answered (env_of (Some ''k'') (Response 200 (Parsed season_not_found)))
     (snd (list_seasons cpython (env_of (Some ''k'') (Response 200 (Parsed season_not_found))) [] []))
     season_not_found \<and>
   \<not> truthy (JBool False) \<and>
   fst (list_seasons cpython (env_of (Some ''k'') (Response 200 (Parsed season_not_found))) [] []) =
     Returned (error_mark @ '' API Error: Season not found'') \<and>
   fst (list_season_matches cpython (env_of (Some ''k'') (Response 200 (Parsed season_not_found))) ''7'' [] []) =
     Returned (error_mark @ '' API Error: Season not found'') \<and>
   answered (env_of (Some ''k'') (Response 200 (Parsed empty_object)))
     (snd (get_match_events cpython (env_of (Some ''k'') (Response 200 (Parsed empty_object))) ''7'' []))
     empty_object \<and>
   \<not> truthy JNull \<and>
   fst (get_match_events cpython (env_of (Some ''k'') (Response 200 (Parsed empty_object))) ''7'' []) =
     Returned (error_mark @ '' API Error: Korastats API returned an error.'')"
proof -
  let ?e1 = "env_of (Some ''k'') (Response 200 (Parsed season_not_found))"
  let ?e3 = "env_of (Some ''k'') (Response 200 (Parsed empty_object))"
  let ?root = "JObj [(''result'', JBool False), (''message'', JStr ''Season not found''),
                     (''object'', JObj [(''Data'', JList [JObj [(''id'', JInt 1)]])])]"
  have a1: "answered ?e1 (snd (list_seasons cpython ?e1 [] [])) season_not_found" by code_simp
  have a2: "answered ?e1 (snd (list_season_matches cpython ?e1 ''7'' [] [])) season_not_found" by code_simp
  have a3: "answered ?e3 (snd (get_match_events cpython ?e3 ''7'' [])) empty_object" by code_simp
  have g: "py_get season_not_found ''root'' (JObj []) = Returned ?root"
    "py_get ?root ''result'' JNull = Returned (JBool False)"
    "py_get ?root ''message'' (JStr ''Korastats API returned an error.'') = Returned (JStr ''Season not found'')"
    "py_get empty_object ''result'' JNull = Returned JNull"
    "py_get empty_object ''message'' (JStr ''Korastats API returned an error.'') =
       Returned (JStr ''Korastats API returned an error.'')"
    by (simp_all add: season_not_found_def empty_object_def)
  from application_error [where rt = cpython and e = ?e1 and pn = "[]" and ps = "[]" and sid = "''7''"
      and payload = season_not_found and root = ?root and flag = "JBool False"
      and msg = "JStr ''Season not found''", THEN conjunct1] a1 g
  have c1: "fst (list_seasons cpython ?e1 [] []) = Returned (error_mark @ '' API Error: Season not found'')"
    by (simp add: py_str_def)
  from application_error [where rt = cpython and e = ?e1 and pn = "[]" and ps = "[]" and sid = "''7''"
      and payload = season_not_found and root = ?root and flag = "JBool False"
      and msg = "JStr ''Season not found''", THEN conjunct2, THEN conjunct1] a2 g
  have c2: "fst (list_season_matches cpython ?e1 ''7'' [] []) =
      Returned (error_mark @ '' API Error: Season not found'')"
    by (simp add: py_str_def)
  from application_error [where rt = cpython and e = ?e3 and mid = "''7''" and lim = "[]"
      and payload = empty_object and flag = JNull
      and msg = "JStr ''Korastats API returned an error.''", THEN conjunct2, THEN conjunct2] a3 g
  have c3: "fst (get_match_events cpython ?e3 ''7'' []) =
      Returned (error_mark @ '' API Error: Korastats API returned an error.'')"
    by (simp add: py_str_def)
  from a1 a3 c1 c2 c3 show ?thesis by simp
qed

text \<open>
  C2 as stated fails on a parsed response whose envelope is not an object: with
  \<^verbatim>\<open>{"root": null}\<close> the flag is absent and \<^verbatim>\<open>root.get\<close> raises, and so does
  \<^verbatim>\<open>payload.get\<close> on a response that is a list. No text is returned.
\<close>

theorem envelope_shape_counterexample:
  "answered (env_of (Some ''k'') (Response 200 (Parsed null_root)))
     (snd (list_seasons cpython (env_of (Some ''k'') (Response 200 (Parsed null_root))) [] [])) null_root \<and>
   fst (list_seasons cpython (env_of (Some ''k'') (Response 200 (Parsed null_root))) [] []) =
     Raised AttributeError \<and>
   fst (list_season_matches cpython (env_of (Some ''k'') (Response 200 (Parsed null_root))) ''7'' [] []) =
     Raised AttributeError \<and>
   answered (env_of (Some ''k'') (Response 200 (Parsed list_body)))
     (snd (get_match_events cpython (env_of (Some ''k'') (Response 200 (Parsed list_body))) ''7'' [])) list_body \<and>
   fst (get_match_events cpython (env_of (Some ''k'') (Response 200 (Parsed list_body))) ''7'' []) =
     Raised AttributeError"
  by code_simp

subsection \<open>C3: no key\<close>

text \<open>
  C3 (as amended). When the API key is empty or white space only, no call of any tool has
  any effect (no request is sent, nothing is logged), whatever the arguments. A call
  whose arguments pass the tool's own validation returns the missing-key text; a call
  whose arguments fail it returns the text of the first check that fails, in the order
  of the source: the identifier is required, the identifier is not an integer, then
  \<^verbatim>\<open>page_number\<close> and \<^verbatim>\<open>page_size\<close>, or \<^verbatim>\<open>limit\<close>, each with its raw value. An optional
  argument fails its check when it is not blank and \<^verbatim>\<open>int()\<close> rejects it.
\<close>

theorem missing_key:
  assumes "get_api_key rt e = []"
  shows "list_seasons rt e pn ps =
           (Returned (error_mark @ '' Error: '' @
              (if str_strip rt pn \<noteq> [] \<and> int_of_str rt (str_strip rt pn) = None
                 then ''Invalid page_number value: '' @ pn
               else if str_strip rt ps \<noteq> [] \<and> int_of_str rt (str_strip rt ps) = None
                 then ''Invalid page_size value: '' @ ps
               else ''Missing Korastats API key. Set Docker secret KORASTATS_API_KEY.'')), []) \<and>
         list_season_matches rt e sid pn ps =
           (Returned (error_mark @ '' Error: '' @
              (if str_strip rt sid = [] then ''season_id is required.''
               else if int_of_str rt (str_strip rt sid) = None
                 then ''Invalid season_id value: '' @ sid
               else if str_strip rt pn \<noteq> [] \<and> int_of_str rt (str_strip rt pn) = None
                 then ''Invalid page_number value: '' @ pn
               else if str_strip rt ps \<noteq> [] \<and> int_of_str rt (str_strip rt ps) = None
                 then ''Invalid page_size value: '' @ ps
               else ''Missing Korastats API key. Set Docker secret KORASTATS_API_KEY.'')), []) \<and>
         get_match_events rt e mid lim =
           (Returned (error_mark @ '' Error: '' @
              (if str_strip rt mid = [] then ''match_id is required.''
               else if int_of_str rt (str_strip rt mid) = None
                 then ''Invalid match_id value: '' @ mid
               else if str_strip rt lim \<noteq> [] \<and> int_of_str rt (str_strip rt lim) = None
                 then ''Invalid limit value: '' @ lim
               else ''Missing Korastats API key. Set Docker secret KORASTATS_API_KEY.'')), [])"
proof (intro conjI)
  show "list_seasons rt e pn ps =
           (Returned (error_mark @ '' Error: '' @
              (if str_strip rt pn \<noteq> [] \<and> int_of_str rt (str_strip rt pn) = None
                 then ''Invalid page_number value: '' @ pn
               else if str_strip rt ps \<noteq> [] \<and> int_of_str rt (str_strip rt ps) = None
                 then ''Invalid page_size value: '' @ ps
               else ''Missing Korastats API key. Set Docker secret KORASTATS_API_KEY.'')), [])"
    using assms
    by (auto simp: list_seasons_def int_at_least_1_def perform_request_no_key split: option.splits)
  show "list_season_matches rt e sid pn ps =
           (Returned (error_mark @ '' Error: '' @
              (if str_strip rt sid = [] then ''season_id is required.''
               else if int_of_str rt (str_strip rt sid) = None
                 then ''Invalid season_id value: '' @ sid
               else if str_strip rt pn \<noteq> [] \<and> int_of_str rt (str_strip rt pn) = None
                 then ''Invalid page_number value: '' @ pn
               else if str_strip rt ps \<noteq> [] \<and> int_of_str rt (str_strip rt ps) = None
                 then ''Invalid page_size value: '' @ ps
               else ''Missing Korastats API key. Set Docker secret KORASTATS_API_KEY.'')), [])"
    using assms
    by (auto simp: list_season_matches_def int_at_least_1_def perform_request_no_key
             split: option.splits)
  show "get_match_events rt e mid lim =
           (Returned (error_mark @ '' Error: '' @
              (if str_strip rt mid = [] then ''match_id is required.''
               else if int_of_str rt (str_strip rt mid) = None
                 then ''Invalid match_id value: '' @ mid
               else if str_strip rt lim \<noteq> [] \<and> int_of_str rt (str_strip rt lim) = None
                 then ''Invalid limit value: '' @ lim
               else ''Missing Korastats API key. Set Docker secret KORASTATS_API_KEY.'')), [])"
    using assms
    by (auto simp: get_match_events_def limit_arg_def perform_request_no_key split: option.splits)
qed

text \<open>
  A key of two blanks: calls with valid arguments, and calls where one argument is not
  an integer or the identifier is blank.
\<close>

theorem missing_key_witness:
  "get_api_key cpython (env_of (Some ''  '') (RequestError [])) = [] \<and>
   list_seasons cpython (env_of (Some ''  '') (RequestError [])) [] ''7'' =
     (Returned (error_mark @ '' Error: Missing Korastats API key. Set Docker secret KORASTATS_API_KEY.''), []) \<and>
   list_season_matches cpython (env_of (Some ''  '') (RequestError [])) ''7'' [] ''7'' =
     (Returned (error_mark @ '' Error: Missing Korastats API key. Set Docker secret KORASTATS_API_KEY.''), []) \<and>
   get_match_events cpython (env_of (Some ''  '') (RequestError [])) ''7'' ''7'' =
     (Returned (error_mark @ '' Error: Missing Korastats API key. Set Docker secret KORASTATS_API_KEY.''), []) \<and>
   list_seasons cpython (env_of (Some ''  '') (RequestError [])) ''abc'' ''7'' =
     (Returned (error_mark @ '' Error: Invalid page_number value: abc''), []) \<and>
   list_seasons cpython (env_of (Some ''  '') (RequestError [])) ''7'' ''abc'' =
     (Returned (error_mark @ '' Error: Invalid page_size value: abc''), []) \<and>
   list_season_matches cpython (env_of (Some ''  '') (RequestError [])) ''  '' ''abc'' ''7'' =
     (Returned (error_mark @ '' Error: season_id is required.''), []) \<and>
   list_season_matches cpython (env_of (Some ''  '') (RequestError [])) ''abc'' ''7'' ''abc'' =
     (Returned (error_mark @ '' Error: Invalid season_id value: abc''), []) \<and>
   list_season_matches cpython (env_of (Some ''  '') (RequestError [])) ''7'' ''7'' ''abc'' =
     (Returned (error_mark @ '' Error: Invalid page_size value: abc''), []) \<and>
   get_match_events cpython (env_of (Some ''  '') (RequestError [])) ''  '' ''abc'' =
     (Returned (error_mark @ '' Error: match_id is required.''), []) \<and>
   get_match_events cpython (env_of (Some ''  '') (RequestError [])) ''abc'' ''7'' =
     (Returned (error_mark @ '' Error: Invalid match_id value: abc''), []) \<and>
   get_match_events cpython (env_of (Some ''  '') (RequestError [])) ''7'' ''abc'' =
     (Returned (error_mark @ '' Error: Invalid limit value: abc''), [])"
proof -
  let ?e = "env_of (Some ''  '') (RequestError [])"
  have k: "get_api_key cpython ?e = []" by code_simp
  note v = strip_examples int_examples
  from missing_key [OF k, of "[]" "''7''" "''7''" "''7''" "''7''"]
    missing_key [OF k, of "''abc''" "''7''" "''  ''" "''  ''" "''abc''"]
    missing_key [OF k, of "''7''" "''abc''" "''abc''" "''abc''" "''7''"]
    missing_key [OF k, of "''7''" "''abc''" "''7''" "''7''" "''abc''"]
    k
  show ?thesis by (simp add: v)
qed

text \<open>
  C3 as stated fails: the arguments are validated before the key is read, so with no key
  set an invalid \<^verbatim>\<open>season_id\<close> is answered with the validation text, not with the
  missing-key text.
\<close>

theorem missing_key_counterexample:
  "get_api_key cpython (env_of None (RequestError [])) = [] \<and>
   fst (list_season_matches cpython (env_of None (RequestError [])) ''abc'' [] []) =
     Returned (error_mark @ '' Error: Invalid season_id value: abc'') \<and>
   fst (list_season_matches cpython (env_of None (RequestError [])) ''abc'' [] []) \<noteq>
     Returned (error_mark @ '' Error: Missing Korastats API key. Set Docker secret KORASTATS_API_KEY.'')"
  by code_simp

subsection \<open>C4: mandatory identifiers\<close>

text \<open>
  C4 (as amended). A mandatory identifier (\<^verbatim>\<open>season_id\<close>, \<^verbatim>\<open>match_id\<close>) that is empty or
  white space only makes the tool return the fixed text \<^verbatim>\<open><name> is required.\<close>, which
  does not name the raw value; one that is not empty and that \<^verbatim>\<open>int()\<close> rejects makes it
  return \<^verbatim>\<open>Invalid <name> value: <raw value>\<close>. In both cases the call has no effect at
  all: no request is sent and nothing is logged.
\<close>

theorem identifier_validation:
  "(str_strip rt season_id = [] \<longrightarrow>
      list_season_matches rt e season_id page_number page_size =
        (Returned (error_mark @ '' Error: season_id is required.''), [])) \<and>
   (str_strip rt season_id \<noteq> [] \<and> int_of_str rt (str_strip rt season_id) = None \<longrightarrow>
      list_season_matches rt e season_id page_number page_size =
        (Returned (error_mark @ '' Error: Invalid season_id value: '' @ season_id), [])) \<and>
   (str_strip rt match_id = [] \<longrightarrow>
      get_match_events rt e match_id limit =
        (Returned (error_mark @ '' Error: match_id is required.''), [])) \<and>
   (str_strip rt match_id \<noteq> [] \<and> int_of_str rt (str_strip rt match_id) = None \<longrightarrow>
      get_match_events rt e match_id limit =
        (Returned (error_mark @ '' Error: Invalid match_id value: '' @ match_id), []))"
  by (simp add: list_season_matches_def get_match_events_def)

theorem identifier_validation_witness:
  "str_strip cpython ''  '' = [] \<and>
   list_season_matches cpython (env_of None (RequestError [])) ''  '' ''1'' ''1'' =
     (Returned (error_mark @ '' Error: season_id is required.''), []) \<and>
   str_strip cpython ''abc'' \<noteq> [] \<and> int_of_str cpython (str_strip cpython ''abc'') = None \<and>
   list_season_matches cpython (env_of None (RequestError [])) ''abc'' ''1'' ''1'' =
     (Returned (error_mark @ '' Error: Invalid season_id value: abc''), []) \<and>
   get_match_events cpython (env_of None (RequestError [])) ''  '' ''1'' =
     (Returned (error_mark @ '' Error: match_id is required.''), []) \<and>
   get_match_events cpython (env_of None (RequestError [])) ''abc'' ''1'' =
     (Returned (error_mark @ '' Error: Invalid match_id value: abc''), [])"
  using identifier_validation [of cpython "''  ''" "env_of None (RequestError [])" "''1''" "''1''" "''  ''" "''1''"]
        identifier_validation [of cpython "''abc''" "env_of None (RequestError [])" "''1''" "''1''" "''abc''" "''1''"]
  by (simp add: strip_examples int_examples)

text \<open>
  C4 as stated fails: two spaces are not integer-parsable, and the text returned for them
  does not contain them.
\<close>

theorem identifier_named_counterexample:
  "int_of_str cpython ''  '' = None \<and>
   list_season_matches cpython (env_of (Some ''k'') (RequestError [])) ''  '' [] [] =
     (Returned (error_mark @ '' Error: season_id is required.''), []) \<and>
   \<not> sublist ''  '' (error_mark @ '' Error: season_id is required.'')"
  by (simp add: list_season_matches_def strip_ascii_def is_space_def int_ascii_def error_mark_def sublist_Cons_right)

subsection \<open>C5: clamping\<close>

text \<open>
  C5. With a key set, so that the request is sent: a \<^verbatim>\<open>page_number\<close> or \<^verbatim>\<open>page_size\<close>
  that parses to an integer below 1 is sent upstream as \<^verbatim>\<open>1\<close>, and one that is not
  supplied is sent as \<^verbatim>\<open>1\<close> and \<^verbatim>\<open>20\<close>. For \<^verbatim>\<open>get_match_events\<close>, let \<open>L\<close> be 10
  when no limit is supplied, 1 when the supplied one is below 1, 50 when it is above 50,
  and the supplied one otherwise. A call that is answered with a success envelope and a
  match that has events returns the report whose highlights are the lines of the first
  \<open>L\<close> events, all of them when there are fewer, with their number after
  \<^verbatim>\<open>Showing first\<close> and \<open>L\<close> after \<^verbatim>\<open>limit\<close>.
\<close>

theorem clamped_arguments:
  assumes "get_api_key rt e \<noteq> []"
  shows
    "(int_at_least_1 rt ps 20 \<noteq> None \<longrightarrow>
        (str_strip rt pn = [] \<longrightarrow>
           sent (snd (list_seasons rt e pn ps)) ''page_number'' = Some ''1'') \<and>
        (str_strip rt pn \<noteq> [] \<and> int_of_str rt (str_strip rt pn) = Some n \<and> n < 1 \<longrightarrow>
           sent (snd (list_seasons rt e pn ps)) ''page_number'' = Some ''1'')) \<and>
     (int_at_least_1 rt pn 1 \<noteq> None \<longrightarrow>
        (str_strip rt ps = [] \<longrightarrow>
           sent (snd (list_seasons rt e pn ps)) ''page_size'' = Some ''20'') \<and>
        (str_strip rt ps \<noteq> [] \<and> int_of_str rt (str_strip rt ps) = Some n \<and> n < 1 \<longrightarrow>
           sent (snd (list_seasons rt e pn ps)) ''page_size'' = Some ''1'')) \<and>
     (str_strip rt sid \<noteq> [] \<and> int_of_str rt (str_strip rt sid) \<noteq> None \<and>
      int_at_least_1 rt ps 20 \<noteq> None \<longrightarrow>
        (str_strip rt pn = [] \<longrightarrow>
           sent (snd (list_season_matches rt e sid pn ps)) ''page_number'' = Some ''1'') \<and>
        (str_strip rt pn \<noteq> [] \<and> int_of_str rt (str_strip rt pn) = Some n \<and> n < 1 \<longrightarrow>
           sent (snd (list_season_matches rt e sid pn ps)) ''page_number'' = Some ''1'')) \<and>
     (str_strip rt sid \<noteq> [] \<and> int_of_str rt (str_strip rt sid) \<noteq> None \<and>
      int_at_least_1 rt pn 1 \<noteq> None \<longrightarrow>
        (str_strip rt ps = [] \<longrightarrow>
           sent (snd (list_season_matches rt e sid pn ps)) ''page_size'' = Some ''20'') \<and>
        (str_strip rt ps \<noteq> [] \<and> int_of_str rt (str_strip rt ps) = Some n \<and> n < 1 \<longrightarrow>
           sent (snd (list_season_matches rt e sid pn ps)) ''page_size'' = Some ''1'')) \<and>
     (answered e (snd (get_match_events rt e mid lim)) payload \<and>
      (str_strip rt lim = [] \<and> L = 10 \<or>
       str_strip rt lim \<noteq> [] \<and> int_of_str rt (str_strip rt lim) = Some n \<and> n < 1 \<and> L = 1 \<or>
       str_strip rt lim \<noteq> [] \<and> int_of_str rt (str_strip rt lim) = Some n \<and> 50 < n \<and> L = 50 \<or>
       str_strip rt lim \<noteq> [] \<and> int_of_str rt (str_strip rt lim) = Some n \<and> 1 \<le> n \<and> n \<le> 50 \<and>
         L = n) \<and>
      py_get payload ''result'' JNull = Returned flag \<and> truthy flag \<and>
      py_get payload ''data'' (JObj []) = Returned data \<and>
      py_get data ''match'' JNull = Returned m \<and>
      py_get m ''home'' JNull = Returned h \<and> py_get (py_or h (JObj [])) ''name'' JNull = Returned hn \<and>
      py_get m ''away'' JNull = Returned a \<and> py_get (py_or a (JObj [])) ''name'' JNull = Returned an \<and>
      py_get m ''status'' JNull = Returned st \<and>
      py_get (py_or st (JObj [])) ''strStatus'' JNull = Returned sn \<and>
      py_get m ''events'' (JList []) = Returned (JList xs) \<and> xs \<noteq> [] \<and>
      for_each (event_line rt) (take (nat L) xs) = Returned lines \<and>
      py_get payload ''message'' (JStr ''Success'') = Returned msg \<longrightarrow>
        length lines = min (length xs) (nat L) \<and>
        fst (get_match_events rt e mid lim) =
          Returned (report_mark @ '' Match Events:'' @ nl @
                    ''- Fixture: '' @ py_str rt (py_or hn (JStr ''Home'')) @ '' vs '' @
                      py_str rt (py_or an (JStr ''Away'')) @ nl @
                    ''- Status: '' @ py_str rt (py_or sn (JStr ''Unknown'')) @ nl @
                    ''- Total events: '' @ str_int (int (length xs)) @ nl @
                    ''- Showing first '' @ str_int (int (length lines)) @
                    '' events (limit '' @ str_int L @ '')'' @ nl @
                    nl @
                    ''Highlights:'' @ nl @
                    join nl lines @ nl @
                    nl @
                    ''Summary: '' @ py_str rt msg @ '' | Generated at '' @ iso_timestamp e))"
proof -
  note key = assms
  have p1: "sent (snd (list_seasons rt e pn ps)) ''page_number'' = Some ''1''"
    if "int_at_least_1 rt ps 20 \<noteq> None" "int_at_least_1 rt pn 1 = Some 1"
    using sent_list_seasons(1) [OF key that(2)] that(1) by (auto simp: str_int_examples)
  have p2: "sent (snd (list_seasons rt e pn ps)) ''page_size'' = Some (str_int sv)"
    if "int_at_least_1 rt pn 1 \<noteq> None" "int_at_least_1 rt ps 20 = Some sv" for sv
    using sent_list_seasons(2) [OF key _ that(2)] that(1) by auto
  have valid: "\<exists>v. int_of_str rt (str_strip rt sid) = Some v"
    if "int_of_str rt (str_strip rt sid) \<noteq> None"
    using that by auto
  have p3: "sent (snd (list_season_matches rt e sid pn ps)) ''page_number'' = Some ''1''"
    if "str_strip rt sid \<noteq> []" "int_of_str rt (str_strip rt sid) \<noteq> None"
       "int_at_least_1 rt ps 20 \<noteq> None" "int_at_least_1 rt pn 1 = Some 1"
    using sent_list_season_matches(1) [OF key that(1) _ that(4)] that(2,3)
    by (auto simp: str_int_examples)
  have p4: "sent (snd (list_season_matches rt e sid pn ps)) ''page_size'' = Some (str_int sv)"
    if "str_strip rt sid \<noteq> []" "int_of_str rt (str_strip rt sid) \<noteq> None"
       "int_at_least_1 rt pn 1 \<noteq> None" "int_at_least_1 rt ps 20 = Some sv" for sv
    using sent_list_season_matches(2) [OF key that(1) _ _ that(4)] that(2,3) by auto
  have lim: "length lines = min (length xs) (nat L) \<and>
        fst (get_match_events rt e mid lim) =
          Returned (report_mark @ '' Match Events:'' @ nl @
                    ''- Fixture: '' @ py_str rt (py_or hn (JStr ''Home'')) @ '' vs '' @
                      py_str rt (py_or an (JStr ''Away'')) @ nl @
                    ''- Status: '' @ py_str rt (py_or sn (JStr ''Unknown'')) @ nl @
                    ''- Total events: '' @ str_int (int (length xs)) @ nl @
                    ''- Showing first '' @ str_int (int (length lines)) @
                    '' events (limit '' @ str_int L @ '')'' @ nl @
                    nl @
                    ''Highlights:'' @ nl @
                    join nl lines @ nl @
                    nl @
                    ''Summary: '' @ py_str rt msg @ '' | Generated at '' @ iso_timestamp e)"
    if a: "answered e (snd (get_match_events rt e mid lim)) payload"
      and L: "str_strip rt lim = [] \<and> L = 10 \<or>
       str_strip rt lim \<noteq> [] \<and> int_of_str rt (str_strip rt lim) = Some n \<and> n < 1 \<and> L = 1 \<or>
       str_strip rt lim \<noteq> [] \<and> int_of_str rt (str_strip rt lim) = Some n \<and> 50 < n \<and> L = 50 \<or>
       str_strip rt lim \<noteq> [] \<and> int_of_str rt (str_strip rt lim) = Some n \<and> 1 \<le> n \<and> n \<le> 50 \<and>
         L = n"
      and sh: "py_get payload ''result'' JNull = Returned flag" "truthy flag"
        "py_get payload ''data'' (JObj []) = Returned data"
        "py_get data ''match'' JNull = Returned m"
        "py_get m ''home'' JNull = Returned h" "py_get (py_or h (JObj [])) ''name'' JNull = Returned hn"
        "py_get m ''away'' JNull = Returned a" "py_get (py_or a (JObj [])) ''name'' JNull = Returned an"
        "py_get m ''status'' JNull = Returned st"
        "py_get (py_or st (JObj [])) ''strStatus'' JNull = Returned sn"
        "py_get m ''events'' (JList []) = Returned (JList xs)" "xs \<noteq> []"
        "for_each (event_line rt) (take (nat L) xs) = Returned lines"
        "py_get payload ''message'' (JStr ''Success'') = Returned msg"
  proof -
    from L have "limit_arg rt lim = Some L" by (auto simp: limit_arg_def)
    with get_match_events_answered [OF a] obtain v where
      "fst (get_match_events rt e mid lim) = events_text rt e v L payload"
      by auto
    moreover note events_text_report [OF sh, of e v]
    moreover have "length lines = min (length xs) (nat L)"
      using for_each_length [OF sh(13)] by (simp add: min.commute)
    ultimately show ?thesis by simp
  qed
  show ?thesis
    using p1 p2 p3 p4 lim
    by (simp add: int_at_least_1_cases str_int_examples)
qed

text \<open>
  Arguments below 1 and arguments left out; the limits \<^verbatim>\<open>0\<close> over two events, and
  \<^verbatim>\<open>100\<close> and none over sixty.
\<close>

theorem clamped_arguments_witness:
  "get_api_key cpython (env_of (Some ''k'') (Response 200 (Parsed demo_events))) \<noteq> [] \<and>
   int_of_str cpython (str_strip cpython ''0'') = Some 0 \<and>
   sent (snd (list_seasons cpython (env_of (Some ''k'') (Response 200 (Parsed demo_events))) ''0'' ''0''))
     ''page_number'' = Some ''1'' \<and>
   sent (snd (list_seasons cpython (env_of (Some ''k'') (Response 200 (Parsed demo_events))) ''0'' ''0''))
     ''page_size'' = Some ''1'' \<and>
   sent (snd (list_seasons cpython (env_of (Some ''k'') (Response 200 (Parsed demo_events))) [] []))
     ''page_number'' = Some ''1'' \<and>
   sent (snd (list_seasons cpython (env_of (Some ''k'') (Response 200 (Parsed demo_events))) [] []))
     ''page_size'' = Some ''20'' \<and>
   sent (snd (list_season_matches cpython (env_of (Some ''k'') (Response 200 (Parsed demo_events))) ''7'' ''0'' ''0''))
     ''page_number'' = Some ''1'' \<and>
   sent (snd (list_season_matches cpython (env_of (Some ''k'') (Response 200 (Parsed demo_events))) ''7'' ''0'' ''0''))
     ''page_size'' = Some ''1'' \<and>
   sent (snd (list_season_matches cpython (env_of (Some ''k'') (Response 200 (Parsed demo_events))) ''7'' [] []))
     ''page_number'' = Some ''1'' \<and>
   sent (snd (list_season_matches cpython (env_of (Some ''k'') (Response 200 (Parsed demo_events))) ''7'' [] []))
     ''page_size'' = Some ''20'' \<and>
   fst (get_match_events cpython (env_of (Some ''k'') (Response 200 (Parsed demo_events))) ''501'' ''0'') =
     Returned (report_mark @ '' Match Events:'' @ nl @
               ''- Fixture: Home vs Away'' @ nl @
               ''- Status: Unknown'' @ nl @
               ''- Total events: 2'' @ nl @
               ''- Showing first 1 events (limit 1)'' @ nl @
               nl @
               ''Highlights:'' @ nl @
               blank_event_line @ nl @
               nl @
               ''Summary: Success | Generated at 2025-01-02T03:04:05Z'') \<and>
   int_of_str cpython (str_strip cpython ''100'') = Some 100 \<and>
   fst (get_match_events cpython (env_of (Some ''k'') (Response 200 (Parsed sixty_events))) ''501'' ''100'') =
     Returned (report_mark @ '' Match Events:'' @ nl @
               ''- Fixture: Home vs Away'' @ nl @
               ''- Status: Unknown'' @ nl @
               ''- Total events: 60'' @ nl @
               ''- Showing first 50 events (limit 50)'' @ nl @
               nl @
               ''Highlights:'' @ nl @
               join nl (replicate 50 blank_event_line) @ nl @
               nl @
               ''Summary: Success | Generated at 2025-01-02T03:04:05Z'') \<and>
   fst (get_match_events cpython (env_of (Some ''k'') (Response 200 (Parsed sixty_events))) ''501'' []) =
     Returned (report_mark @ '' Match Events:'' @ nl @
               ''- Fixture: Home vs Away'' @ nl @
               ''- Status: Unknown'' @ nl @
               ''- Total events: 60'' @ nl @
               ''- Showing first 10 events (limit 10)'' @ nl @
               nl @
               ''Highlights:'' @ nl @
               join nl (replicate 10 blank_event_line) @ nl @
               nl @
               ''Summary: Success | Generated at 2025-01-02T03:04:05Z'')"
proof -
  let ?e = "env_of (Some ''k'') (Response 200 (Parsed demo_events))"
  let ?e6 = "env_of (Some ''k'') (Response 200 (Parsed sixty_events))"
  let ?m2 = "JObj [(''events'', JList [JObj [], JObj []])]"
  let ?m6 = "JObj [(''events'', JList (replicate 60 (JObj [])))]"
  have key: "get_api_key cpython ?e \<noteq> []" "get_api_key cpython ?e6 \<noteq> []" by code_simp+
  have v: "int_at_least_1 cpython ''0'' 1 \<noteq> None" "int_at_least_1 cpython ''0'' 20 \<noteq> None"
    "int_at_least_1 cpython [] 1 \<noteq> None" "int_at_least_1 cpython [] 20 \<noteq> None"
    "str_strip cpython ''0'' \<noteq> []" "int_of_str cpython (str_strip cpython ''0'') = Some 0"
    "str_strip cpython ''7'' \<noteq> []" "int_of_str cpython (str_strip cpython ''7'') \<noteq> None"
    "str_strip cpython [] = []"
    "str_strip cpython ''100'' \<noteq> []" "int_of_str cpython (str_strip cpython ''100'') = Some 100"
    by code_simp+
  have a: "answered ?e (snd (get_match_events cpython ?e ''501'' ''0'')) demo_events"
    "answered ?e6 (snd (get_match_events cpython ?e6 ''501'' ''100'')) sixty_events"
    "answered ?e6 (snd (get_match_events cpython ?e6 ''501'' [])) sixty_events"
    by code_simp+
  have line: "event_line cpython (JObj []) = Returned blank_event_line" by code_simp
  have lines: "for_each (event_line cpython) (replicate k (JObj [])) = Returned (replicate k blank_event_line)"
    for k by (induction k) (simp_all add: line)
  have g2: "py_get demo_events ''result'' JNull = Returned (JBool True)"
    "py_get demo_events ''data'' (JObj []) = Returned (JObj [(''match'', ?m2)])"
    "py_get (JObj [(''match'', ?m2)]) ''match'' JNull = Returned ?m2"
    "py_get ?m2 ''home'' JNull = Returned JNull" "py_get ?m2 ''away'' JNull = Returned JNull"
    "py_get ?m2 ''status'' JNull = Returned JNull"
    "py_get ?m2 ''events'' (JList []) = Returned (JList (replicate 2 (JObj [])))"
    "py_get demo_events ''message'' (JStr ''Success'') = Returned (JStr ''Success'')"
    by (simp_all add: demo_events_def numeral_2_eq_2)
  have g6: "py_get sixty_events ''result'' JNull = Returned (JBool True)"
    "py_get sixty_events ''data'' (JObj []) = Returned (JObj [(''match'', ?m6)])"
    "py_get (JObj [(''match'', ?m6)]) ''match'' JNull = Returned ?m6"
    "py_get ?m6 ''home'' JNull = Returned JNull" "py_get ?m6 ''away'' JNull = Returned JNull"
    "py_get ?m6 ''status'' JNull = Returned JNull"
    "py_get ?m6 ''events'' (JList []) = Returned (JList (replicate 60 (JObj [])))"
    "py_get sixty_events ''message'' (JStr ''Success'') = Returned (JStr ''Success'')"
    by (simp_all add: sixty_events_def)
  have o: "py_get (py_or JNull (JObj [])) ''name'' JNull = Returned JNull"
    "py_get (py_or JNull (JObj [])) ''strStatus'' JNull = Returned JNull"
    "py_str cpython (py_or JNull (JStr ''Home'')) = ''Home''"
    "py_str cpython (py_or JNull (JStr ''Away'')) = ''Away''"
    "py_str cpython (py_or JNull (JStr ''Unknown'')) = ''Unknown''"
    "py_str cpython (JStr ''Success'') = ''Success''"
    by (simp_all add: py_or_def py_str_def)
  have ts: "iso_timestamp ?e = ''2025-01-02T03:04:05Z''" "iso_timestamp ?e6 = ''2025-01-02T03:04:05Z''"
    by code_simp+
  have pages: "sent (snd (list_seasons cpython ?e ''0'' ''0'')) ''page_number'' = Some ''1''"
    "sent (snd (list_seasons cpython ?e ''0'' ''0'')) ''page_size'' = Some ''1''"
    "sent (snd (list_season_matches cpython ?e ''7'' ''0'' ''0'')) ''page_number'' = Some ''1''"
    "sent (snd (list_season_matches cpython ?e ''7'' ''0'' ''0'')) ''page_size'' = Some ''1''"
    using clamped_arguments [OF key(1), where ps = "''0''" and pn = "''0''" and n = 0 and sid = "''7''"] v
    by simp_all
  have dflt: "sent (snd (list_seasons cpython ?e [] [])) ''page_number'' = Some ''1''"
    "sent (snd (list_seasons cpython ?e [] [])) ''page_size'' = Some ''20''"
    "sent (snd (list_season_matches cpython ?e ''7'' [] [])) ''page_number'' = Some ''1''"
    "sent (snd (list_season_matches cpython ?e ''7'' [] [])) ''page_size'' = Some ''20''"
    using clamped_arguments [OF key(1), where ps = "[]" and pn = "[]" and sid = "''7''"] v
    by simp_all
  have l0: "fst (get_match_events cpython ?e ''501'' ''0'') =
     Returned (report_mark @ '' Match Events:'' @ nl @
               ''- Fixture: Home vs Away'' @ nl @
               ''- Status: Unknown'' @ nl @
               ''- Total events: 2'' @ nl @
               ''- Showing first 1 events (limit 1)'' @ nl @
               nl @
               ''Highlights:'' @ nl @
               blank_event_line @ nl @
               nl @
               ''Summary: Success | Generated at 2025-01-02T03:04:05Z'')"
    using clamped_arguments [OF key(1), where mid = "''501''" and lim = "''0''" and n = 0 and L = 1
        and payload = demo_events and flag = "JBool True" and data = "JObj [(''match'', ?m2)]"
        and m = ?m2 and h = JNull and hn = JNull and a = JNull and an = JNull and st = JNull
        and sn = JNull and xs = "replicate 2 (JObj [])" and lines = "replicate 1 blank_event_line"
        and msg = "JStr ''Success''"]
      a(1) v g2 o ts lines [of 1]
    by (simp add: str_int_examples str_int_more)
  have l100: "fst (get_match_events cpython ?e6 ''501'' ''100'') =
     Returned (report_mark @ '' Match Events:'' @ nl @
               ''- Fixture: Home vs Away'' @ nl @
               ''- Status: Unknown'' @ nl @
               ''- Total events: 60'' @ nl @
               ''- Showing first 50 events (limit 50)'' @ nl @
               nl @
               ''Highlights:'' @ nl @
               join nl (replicate 50 blank_event_line) @ nl @
               nl @
               ''Summary: Success | Generated at 2025-01-02T03:04:05Z'')"
    using clamped_arguments [OF key(2), where mid = "''501''" and lim = "''100''" and n = 100 and L = 50
        and payload = sixty_events and flag = "JBool True" and data = "JObj [(''match'', ?m6)]"
        and m = ?m6 and h = JNull and hn = JNull and a = JNull and an = JNull and st = JNull
        and sn = JNull and xs = "replicate 60 (JObj [])" and lines = "replicate 50 blank_event_line"
        and msg = "JStr ''Success''"]
      a(2) v g6 o ts lines [of 50]
    by (simp add: str_int_examples str_int_more)
  have lnone: "fst (get_match_events cpython ?e6 ''501'' []) =
     Returned (report_mark @ '' Match Events:'' @ nl @
               ''- Fixture: Home vs Away'' @ nl @
               ''- Status: Unknown'' @ nl @
               ''- Total events: 60'' @ nl @
               ''- Showing first 10 events (limit 10)'' @ nl @
               nl @
               ''Highlights:'' @ nl @
               join nl (replicate 10 blank_event_line) @ nl @
               nl @
               ''Summary: Success | Generated at 2025-01-02T03:04:05Z'')"
    using clamped_arguments [OF key(2), where mid = "''501''" and lim = "[]" and L = 10
        and payload = sixty_events and flag = "JBool True" and data = "JObj [(''match'', ?m6)]"
        and m = ?m6 and h = JNull and hn = JNull and a = JNull and an = JNull and st = JNull
        and sn = JNull and xs = "replicate 60 (JObj [])" and lines = "replicate 10 blank_event_line"
        and msg = "JStr ''Success''"]
      a(3) v g6 o ts lines [of 10]
    by (simp add: str_int_examples str_int_more)
  from key(1) v(6,11) pages dflt l0 l100 lnone show ?thesis by (intro conjI)
qed

subsection \<open>C6: failures of the request\<close>




subsection \<open>C7: one marker for each kind of text\<close>




subsection \<open>C8: the same but for the timestamp\<close>

text \<open>
  C8. Two calls of the same tool, in any two environments (clock and key may differ), that
  have the same validated arguments and are answered with the same JSON tree return the
  same result but for the timestamp: the results are equal, or they are two texts that end
  with the timestamps of their calls and are equal before them. For \<^verbatim>\<open>list_seasons\<close> the
  arguments need not even agree, as its text shows none of them.
\<close>

theorem deterministic_but_timestamp:
  "(answered e1 (snd (list_seasons rt e1 pn1 ps1)) payload \<and>
    answered e2 (snd (list_seasons rt e2 pn2 ps2)) payload \<longrightarrow>
      same_but_timestamp (fst (list_seasons rt e1 pn1 ps1)) (iso_timestamp e1)
                         (fst (list_seasons rt e2 pn2 ps2)) (iso_timestamp e2)) \<and>
   (answered e1 (snd (list_season_matches rt e1 sid1 pn1 ps1)) payload \<and>
    answered e2 (snd (list_season_matches rt e2 sid2 pn2 ps2)) payload \<and>
    int_at_least_1 rt pn1 1 = int_at_least_1 rt pn2 1 \<longrightarrow>
      same_but_timestamp (fst (list_season_matches rt e1 sid1 pn1 ps1)) (iso_timestamp e1)
                         (fst (list_season_matches rt e2 sid2 pn2 ps2)) (iso_timestamp e2)) \<and>
   (answered e1 (snd (get_match_events rt e1 mid1 lim1)) payload \<and>
    answered e2 (snd (get_match_events rt e2 mid2 lim2)) payload \<and>
    int_of_str rt (str_strip rt mid1) = int_of_str rt (str_strip rt mid2) \<and>
    limit_arg rt lim1 = limit_arg rt lim2 \<longrightarrow>
      same_but_timestamp (fst (get_match_events rt e1 mid1 lim1)) (iso_timestamp e1)
                         (fst (get_match_events rt e2 mid2 lim2)) (iso_timestamp e2))"
proof (intro conjI impI)
  assume "answered e1 (snd (list_seasons rt e1 pn1 ps1)) payload \<and>
    answered e2 (snd (list_seasons rt e2 pn2 ps2)) payload"
  then have "fst (list_seasons rt e1 pn1 ps1) = seasons_text rt e1 payload"
    "fst (list_seasons rt e2 pn2 ps2) = seasons_text rt e2 payload"
    by (simp_all add: list_seasons_answered)
  then show "same_but_timestamp (fst (list_seasons rt e1 pn1 ps1)) (iso_timestamp e1)
                         (fst (list_seasons rt e2 pn2 ps2)) (iso_timestamp e2)"
    by (simp add: seasons_text_clock)
next
  assume a: "answered e1 (snd (list_season_matches rt e1 sid1 pn1 ps1)) payload \<and>
    answered e2 (snd (list_season_matches rt e2 sid2 pn2 ps2)) payload \<and>
    int_at_least_1 rt pn1 1 = int_at_least_1 rt pn2 1"
  then obtain pv where 1: "int_at_least_1 rt pn1 1 = Some pv"
    "fst (list_season_matches rt e1 sid1 pn1 ps1) = matches_text rt e1 pv payload"
    using list_season_matches_answered [of e1 rt sid1 pn1 ps1 payload] by auto
  from a obtain pv' where 2: "int_at_least_1 rt pn2 1 = Some pv'"
    "fst (list_season_matches rt e2 sid2 pn2 ps2) = matches_text rt e2 pv' payload"
    using list_season_matches_answered [of e2 rt sid2 pn2 ps2 payload] by auto
  from a 1(1) 2(1) have "pv' = pv" by simp
  with 1(2) 2(2) show "same_but_timestamp (fst (list_season_matches rt e1 sid1 pn1 ps1)) (iso_timestamp e1)
                         (fst (list_season_matches rt e2 sid2 pn2 ps2)) (iso_timestamp e2)"
    by (simp add: matches_text_clock)
next
  assume a: "answered e1 (snd (get_match_events rt e1 mid1 lim1)) payload \<and>
    answered e2 (snd (get_match_events rt e2 mid2 lim2)) payload \<and>
    int_of_str rt (str_strip rt mid1) = int_of_str rt (str_strip rt mid2) \<and>
    limit_arg rt lim1 = limit_arg rt lim2"
  then obtain v L where 1: "int_of_str rt (str_strip rt mid1) = Some v" "limit_arg rt lim1 = Some L"
    "fst (get_match_events rt e1 mid1 lim1) = events_text rt e1 v L payload"
    using get_match_events_answered [of e1 rt mid1 lim1 payload] by auto
  from a obtain v' L' where 2: "int_of_str rt (str_strip rt mid2) = Some v'" "limit_arg rt lim2 = Some L'"
    "fst (get_match_events rt e2 mid2 lim2) = events_text rt e2 v' L' payload"
    using get_match_events_answered [of e2 rt mid2 lim2 payload] by auto
  from a 1(1,2) 2(1,2) have "v' = v" "L' = L" by simp_all
  with 1(3) 2(3) show "same_but_timestamp (fst (get_match_events rt e1 mid1 lim1)) (iso_timestamp e1)
                         (fst (get_match_events rt e2 mid2 lim2)) (iso_timestamp e2)"
    by (simp add: events_text_clock)
qed

text \<open>
  The same responses at two different times, with arguments that differ as written and
  agree once validated; the two season reports do differ, in the timestamp.
\<close>

theorem deterministic_but_timestamp_witness:
  "answered (env_of (Some ''k'') (Response 200 (Parsed six_seasons)))
     (snd (list_seasons cpython (env_of (Some ''k'') (Response 200 (Parsed six_seasons))) [] [])) six_seasons \<and>
   answered (later (env_of (Some ''k'') (Response 200 (Parsed six_seasons))))
     (snd (list_seasons cpython (later (env_of (Some ''k'') (Response 200 (Parsed six_seasons)))) ''1'' ''20''))
     six_seasons \<and>
   same_but_timestamp
     (fst (list_seasons cpython (env_of (Some ''k'') (Response 200 (Parsed six_seasons))) [] []))
     (iso_timestamp (env_of (Some ''k'') (Response 200 (Parsed six_seasons))))
     (fst (list_seasons cpython (later (env_of (Some ''k'') (Response 200 (Parsed six_seasons)))) ''1'' ''20''))
     (iso_timestamp (later (env_of (Some ''k'') (Response 200 (Parsed six_seasons))))) \<and>
   fst (list_seasons cpython (env_of (Some ''k'') (Response 200 (Parsed six_seasons))) [] []) \<noteq>
   fst (list_seasons cpython (later (env_of (Some ''k'') (Response 200 (Parsed six_seasons)))) ''1'' ''20'') \<and>
   int_at_least_1 cpython ''0'' 1 = int_at_least_1 cpython [] 1 \<and>
   same_but_timestamp
     (fst (list_season_matches cpython (env_of (Some ''k'') (Response 200 (Parsed demo_matches))) ''7'' ''0'' []))
     (iso_timestamp (env_of (Some ''k'') (Response 200 (Parsed demo_matches))))
     (fst (list_season_matches cpython (later (env_of (Some ''k'') (Response 200 (Parsed demo_matches)))) ''7'' [] []))
     (iso_timestamp (later (env_of (Some ''k'') (Response 200 (Parsed demo_matches))))) \<and>
   limit_arg cpython ''10'' = limit_arg cpython [] \<and>
   same_but_timestamp
     (fst (get_match_events cpython (env_of (Some ''k'') (Response 200 (Parsed demo_events))) ''501'' ''10''))
     (iso_timestamp (env_of (Some ''k'') (Response 200 (Parsed demo_events))))
     (fst (get_match_events cpython (later (env_of (Some ''k'') (Response 200 (Parsed demo_events)))) '' 501'' []))
     (iso_timestamp (later (env_of (Some ''k'') (Response 200 (Parsed demo_events)))))"
proof -
  let ?e1 = "env_of (Some ''k'') (Response 200 (Parsed six_seasons))"
  let ?e2 = "env_of (Some ''k'') (Response 200 (Parsed demo_matches))"
  let ?e3 = "env_of (Some ''k'') (Response 200 (Parsed demo_events))"
  have a1: "answered ?e1 (snd (list_seasons cpython ?e1 [] [])) six_seasons"
    "answered (later ?e1) (snd (list_seasons cpython (later ?e1) ''1'' ''20'')) six_seasons"
    by code_simp+
  have a2: "answered ?e2 (snd (list_season_matches cpython ?e2 ''7'' ''0'' [])) demo_matches"
    "answered (later ?e2) (snd (list_season_matches cpython (later ?e2) ''7'' [] [])) demo_matches"
    "int_at_least_1 cpython ''0'' 1 = int_at_least_1 cpython [] 1"
    by code_simp+
  have a3: "answered ?e3 (snd (get_match_events cpython ?e3 ''501'' ''10'')) demo_events"
    "answered (later ?e3) (snd (get_match_events cpython (later ?e3) '' 501'' [])) demo_events"
    "int_of_str cpython (str_strip cpython ''501'') = int_of_str cpython (str_strip cpython '' 501'')"
    "limit_arg cpython ''10'' = limit_arg cpython []"
    by code_simp+
  have d: "fst (list_seasons cpython ?e1 [] []) \<noteq> fst (list_seasons cpython (later ?e1) ''1'' ''20'')"
    by code_simp
  from deterministic_but_timestamp [where rt = cpython and ?e1.0 = ?e1 and ?e2.0 = "later ?e1"
      and ?pn1.0 = "[]" and ?ps1.0 = "[]" and ?pn2.0 = "''1''" and ?ps2.0 = "''20''"
      and payload = six_seasons, THEN conjunct1] a1
  have c1: "same_but_timestamp (fst (list_seasons cpython ?e1 [] [])) (iso_timestamp ?e1)
     (fst (list_seasons cpython (later ?e1) ''1'' ''20'')) (iso_timestamp (later ?e1))"
    by simp
  from deterministic_but_timestamp [where rt = cpython and ?e1.0 = ?e2 and ?e2.0 = "later ?e2"
      and ?sid1.0 = "''7''" and ?sid2.0 = "''7''"
      and ?pn1.0 = "''0''" and ?ps1.0 = "[]" and ?pn2.0 = "[]" and ?ps2.0 = "[]"
      and payload = demo_matches, THEN conjunct2, THEN conjunct1] a2
  have c2: "same_but_timestamp (fst (list_season_matches cpython ?e2 ''7'' ''0'' [])) (iso_timestamp ?e2)
     (fst (list_season_matches cpython (later ?e2) ''7'' [] [])) (iso_timestamp (later ?e2))"
    by simp
  from deterministic_but_timestamp [where rt = cpython and ?e1.0 = ?e3 and ?e2.0 = "later ?e3"
      and ?mid1.0 = "''501''" and ?mid2.0 = "'' 501''" and ?lim1.0 = "''10''" and ?lim2.0 = "[]"
      and payload = demo_events, THEN conjunct2, THEN conjunct2] a3
  have c3: "same_but_timestamp (fst (get_match_events cpython ?e3 ''501'' ''10'')) (iso_timestamp ?e3)
     (fst (get_match_events cpython (later ?e3) '' 501'' [])) (iso_timestamp (later ?e3))"
    by simp
  from a1 a2(3) a3(4) d c1 c2 c3 show ?thesis by (intro conjI)
qed

subsection \<open>C9: where the key goes\<close>




text \<open>
  The record that the HTTP client writes at the level INFO holds the URL of the request,
  and with it every parameter sent: with \<^verbatim>\<open>MCP_LOG_LEVEL=INFO\<close> a call that gets a response
  has the key in that record, beside a \<^verbatim>\<open>Calling API\<close> record that leaves it out.
\<close>

lemma client_record_holds_key:
  "snd (list_seasons cpython (at_info (env_of (Some ''s3cr3t'') (Response 200 (Parsed key_echo)))) [] []) =
     [LogInfo ''SeasonList''
        [(''module'', ''api''), (''api'', ''SeasonList''), (''version'', ''V2''),
         (''response'', ''json''), (''lang'', ''en''),
         (''page_number'', ''1''), (''page_size'', ''20'')],
      HttpGet
        [(''module'', ''api''), (''api'', ''SeasonList''), (''version'', ''V2''),
         (''response'', ''json''), (''lang'', ''en''), (''key'', ''s3cr3t''),
         (''page_number'', ''1''), (''page_size'', ''20'')],
      ClientLog
        [(''module'', ''api''), (''api'', ''SeasonList''), (''version'', ''V2''),
         (''response'', ''json''), (''lang'', ''en''), (''key'', ''s3cr3t''),
         (''page_number'', ''1''), (''page_size'', ''20'')] 200]"
  by code_simp

subsection \<open>C10: the page in the header\<close>

text \<open>
  C10. In every success report of \<^verbatim>\<open>list_season_matches\<close> the page printed in the line
  \<^verbatim>\<open>- Page: X of Y\<close> is the validated \<^verbatim>\<open>page_number\<close> argument: 1 when none is supplied, and
  the larger of 1 and the parsed value otherwise. In every success report of
  \<^verbatim>\<open>list_seasons\<close> it is the \<^verbatim>\<open>current_page\<close> field of the payload object, and
  \<^verbatim>\<open>Unknown\<close> when the payload has no such field.
\<close>

theorem page_line:
  "(answered e (snd (list_season_matches rt e sid pn ps)) payload \<and>
    fst (list_season_matches rt e sid pn ps) = Returned s \<and> prefix report_mark s \<longrightarrow>
      (\<exists>pv (xs::json list) rc tp rest.
         int_at_least_1 rt pn 1 = Some pv \<and>
         (str_strip rt pn = [] \<longrightarrow> pv = 1) \<and>
         (str_strip rt pn \<noteq> [] \<and> int_of_str rt (str_strip rt pn) = Some n \<longrightarrow> pv = max 1 n) \<and>
         s = report_mark @ '' Match Overview:'' @ nl @
             ''- Matches on page: '' @ str_int (int (length xs)) @ nl @
             ''- Total matches: '' @ py_str rt rc @ nl @
             ''- Page: '' @ str_int pv @ '' of '' @ py_str rt tp @ nl @ rest)) \<and>
   (answered e (snd (list_seasons rt e pn ps)) payload \<and>
    fst (list_seasons rt e pn ps) = Returned s \<and> prefix report_mark s \<longrightarrow>
      (\<exists>root kvs (xs::json list) tr tp rest.
         py_get payload ''root'' (JObj []) = Returned root \<and>
         py_get root ''object'' (JObj []) = Returned (JObj kvs) \<and>
         s = report_mark @ '' Seasons Overview:'' @ nl @
             ''- Records on page: '' @ str_int (int (length xs)) @ nl @
             ''- Total records: '' @ py_str rt tr @ nl @
             ''- Page: '' @
               py_str rt (case map_of kvs ''current_page'' of None \<Rightarrow> JStr ''Unknown'' | Some v \<Rightarrow> v) @
             '' of '' @ py_str rt tp @ nl @ rest))"
proof (intro conjI impI)
  assume a: "answered e (snd (list_season_matches rt e sid pn ps)) payload \<and>
    fst (list_season_matches rt e sid pn ps) = Returned s \<and> prefix report_mark s"
  then obtain pv where pv: "int_at_least_1 rt pn 1 = Some pv"
    "matches_text rt e pv payload = Returned s"
    using list_season_matches_answered [of e rt sid pn ps payload] by auto
  from a have "prefix report_mark s" by simp
  from matches_report [OF pv(2) this] obtain xs :: "json list" and lines rc tp msg where
    s: "s = report_mark @ '' Match Overview:'' @ nl @
               ''- Matches on page: '' @ str_int (int (length xs)) @ nl @
               ''- Total matches: '' @ py_str rt rc @ nl @
               ''- Page: '' @ str_int pv @ '' of '' @ py_str rt tp @ nl @
               nl @
               ''Upcoming details:'' @ nl @
               join nl lines @ nl @
               nl @
               ''Summary: '' @ py_str rt msg @ '' | Generated at '' @ iso_timestamp e"
    by (elim exE conjE) (rule that)
  have c: "(str_strip rt pn = [] \<longrightarrow> pv = 1) \<and>
         (str_strip rt pn \<noteq> [] \<and> int_of_str rt (str_strip rt pn) = Some n \<longrightarrow> pv = max 1 n)"
    using pv(1) by (auto simp: int_at_least_1_def)
  show "\<exists>pv (xs::json list) rc tp rest.
         int_at_least_1 rt pn 1 = Some pv \<and>
         (str_strip rt pn = [] \<longrightarrow> pv = 1) \<and>
         (str_strip rt pn \<noteq> [] \<and> int_of_str rt (str_strip rt pn) = Some n \<longrightarrow> pv = max 1 n) \<and>
         s = report_mark @ '' Match Overview:'' @ nl @
             ''- Matches on page: '' @ str_int (int (length xs)) @ nl @
             ''- Total matches: '' @ py_str rt rc @ nl @
             ''- Page: '' @ str_int pv @ '' of '' @ py_str rt tp @ nl @ rest"
    using pv(1) c [THEN conjunct1] c [THEN conjunct2] s by (intro exI conjI)
next
  assume a: "answered e (snd (list_seasons rt e pn ps)) payload \<and>
    fst (list_seasons rt e pn ps) = Returned s \<and> prefix report_mark s"
  then have t: "seasons_text rt e payload = Returned s"
    using list_seasons_answered [of e rt pn ps payload] by simp
  from a have "prefix report_mark s" by simp
  from seasons_report [OF t this] obtain root obj and xs :: "json list" and lines tr tp cp msg where
    d: "py_get payload ''root'' (JObj []) = Returned root"
       "py_get root ''object'' (JObj []) = Returned obj"
       "py_get obj ''current_page'' (JStr ''Unknown'') = Returned cp" and
    s: "s = report_mark @ '' Seasons Overview:'' @ nl @
               ''- Records on page: '' @ str_int (int (length xs)) @ nl @
               ''- Total records: '' @ py_str rt tr @ nl @
               ''- Page: '' @ py_str rt cp @ '' of '' @ py_str rt tp @ nl @
               nl @
               ''Top seasons:'' @ nl @
               join nl lines @ nl @
               nl @
               ''Summary: '' @ py_str rt msg @ '' | Generated at '' @ iso_timestamp e"
    by (elim exE conjE) (rule that)
  from d(3) obtain kvs where kvs: "obj = JObj kvs"
    "cp = (case map_of kvs ''current_page'' of None \<Rightarrow> JStr ''Unknown'' | Some v \<Rightarrow> v)"
    by (auto simp: py_get_Returned)
  show "\<exists>root kvs (xs::json list) tr tp rest.
         py_get payload ''root'' (JObj []) = Returned root \<and>
         py_get root ''object'' (JObj []) = Returned (JObj kvs) \<and>
         s = report_mark @ '' Seasons Overview:'' @ nl @
             ''- Records on page: '' @ str_int (int (length xs)) @ nl @
             ''- Total records: '' @ py_str rt tr @ nl @
             ''- Page: '' @
               py_str rt (case map_of kvs ''current_page'' of None \<Rightarrow> JStr ''Unknown'' | Some v \<Rightarrow> v) @
             '' of '' @ py_str rt tp @ nl @ rest"
    using d(1) d(2) [unfolded kvs(1)] s [unfolded kvs(2)] by (intro exI conjI)
qed

text \<open>
  The same response for both tools, with \<^verbatim>\<open>current_page\<close> 9 and the third page requested:
  \<^verbatim>\<open>list_season_matches\<close> prints page 3, \<^verbatim>\<open>list_seasons\<close> prints page 9.
\<close>

theorem page_line_witness:
  "answered (env_of (Some ''k'') (Response 200 (Parsed demo_matches)))
     (snd (list_season_matches cpython (env_of (Some ''k'') (Response 200 (Parsed demo_matches))) ''7'' ''3'' []))
     demo_matches \<and>
   is_report (fst (list_season_matches cpython (env_of (Some ''k'') (Response 200 (Parsed demo_matches))) ''7'' ''3'' [])) \<and>
   str_strip cpython ''3'' \<noteq> [] \<and> int_of_str cpython (str_strip cpython ''3'') = Some 3 \<and>
   (\<exists>(xs::json list) rc tp rest.
      fst (list_season_matches cpython (env_of (Some ''k'') (Response 200 (Parsed demo_matches))) ''7'' ''3'' []) =
        Returned (report_mark @ '' Match Overview:'' @ nl @
                  ''- Matches on page: '' @ str_int (int (length xs)) @ nl @
                  ''- Total matches: '' @ py_str cpython rc @ nl @
                  ''- Page: 3 of '' @ py_str cpython tp @ nl @ rest)) \<and>
   answered (env_of (Some ''k'') (Response 200 (Parsed demo_matches)))
     (snd (list_seasons cpython (env_of (Some ''k'') (Response 200 (Parsed demo_matches))) ''3'' []))
     demo_matches \<and>
   is_report (fst (list_seasons cpython (env_of (Some ''k'') (Response 200 (Parsed demo_matches))) ''3'' [])) \<and>
   (\<exists>(xs::json list) tr tp rest.
      fst (list_seasons cpython (env_of (Some ''k'') (Response 200 (Parsed demo_matches))) ''3'' []) =
        Returned (report_mark @ '' Seasons Overview:'' @ nl @
                  ''- Records on page: '' @ str_int (int (length xs)) @ nl @
                  ''- Total records: '' @ py_str cpython tr @ nl @
                  ''- Page: 9 of '' @ py_str cpython tp @ nl @ rest))"
proof -
  let ?e = "env_of (Some ''k'') (Response 200 (Parsed demo_matches))"
  let ?root = "JObj [(''result'', JBool True),
                     (''object'', JObj [(''Data'', JList [JObj [(''matchId'', JInt 11)]]),
                                        (''PageCount'', JInt 4), (''current_page'', JInt 9)])]"
  have a1: "answered ?e (snd (list_season_matches cpython ?e ''7'' ''3'' [])) demo_matches" by code_simp
  have a2: "answered ?e (snd (list_seasons cpython ?e ''3'' [])) demo_matches" by code_simp
  have r1: "is_report (fst (list_season_matches cpython ?e ''7'' ''3'' []))" by code_simp
  have r2: "is_report (fst (list_seasons cpython ?e ''3'' []))" by code_simp
  have v: "str_strip cpython ''3'' \<noteq> []" "int_of_str cpython (str_strip cpython ''3'') = Some 3"
    by code_simp+
  from r1 obtain s1 where s1: "fst (list_season_matches cpython ?e ''7'' ''3'' []) = Returned s1"
    "prefix report_mark s1" by (rule is_reportE)
  from r2 obtain s2 where s2: "fst (list_seasons cpython ?e ''3'' []) = Returned s2"
    "prefix report_mark s2" by (rule is_reportE)
  from page_line [where rt = cpython and e = ?e and sid = "''7''" and pn = "''3''" and ps = "[]"
      and payload = demo_matches and s = s1 and n = 3, THEN conjunct1, THEN mp,
      OF conjI [OF a1 conjI [OF s1]]]
  obtain pv and xs1 :: "json list" and rc tp rest where
    p: "str_strip cpython ''3'' \<noteq> [] \<and> int_of_str cpython (str_strip cpython ''3'') = Some 3 \<longrightarrow> pv = max 1 3"
    "s1 = report_mark @ '' Match Overview:'' @ nl @
             ''- Matches on page: '' @ str_int (int (length xs1)) @ nl @
             ''- Total matches: '' @ py_str cpython rc @ nl @
             ''- Page: '' @ str_int pv @ '' of '' @ py_str cpython tp @ nl @ rest"
    by (elim exE conjE) (rule that)
  from p(1) v have "pv = 3" by simp
  with p(2) s1(1) have c1: "\<exists>(xs::json list) rc tp rest.
      fst (list_season_matches cpython ?e ''7'' ''3'' []) =
        Returned (report_mark @ '' Match Overview:'' @ nl @
                  ''- Matches on page: '' @ str_int (int (length xs)) @ nl @
                  ''- Total matches: '' @ py_str cpython rc @ nl @
                  ''- Page: 3 of '' @ py_str cpython tp @ nl @ rest)"
    by (auto simp: str_int_three)
  from page_line [where rt = cpython and e = ?e and pn = "''3''" and ps = "[]"
      and payload = demo_matches and s = s2, THEN conjunct2, THEN mp,
      OF conjI [OF a2 conjI [OF s2]]]
  obtain root kvs and xs2 :: "json list" and tr tp2 rest2 where
    q: "py_get demo_matches ''root'' (JObj []) = Returned root"
    "py_get root ''object'' (JObj []) = Returned (JObj kvs)"
    "s2 = report_mark @ '' Seasons Overview:'' @ nl @
             ''- Records on page: '' @ str_int (int (length xs2)) @ nl @
             ''- Total records: '' @ py_str cpython tr @ nl @
             ''- Page: '' @
               py_str cpython (case map_of kvs ''current_page'' of None \<Rightarrow> JStr ''Unknown'' | Some v \<Rightarrow> v) @
             '' of '' @ py_str cpython tp2 @ nl @ rest2"
    by (elim exE conjE) (rule that)
  from q(1,2) have "map_of kvs ''current_page'' = Some (JInt 9)"
    by (auto simp: demo_matches_def)
  with q(3) s2(1) have c2: "\<exists>(xs::json list) tr tp rest.
      fst (list_seasons cpython ?e ''3'' []) =
        Returned (report_mark @ '' Seasons Overview:'' @ nl @
                  ''- Records on page: '' @ str_int (int (length xs)) @ nl @
                  ''- Total records: '' @ py_str cpython tr @ nl @
                  ''- Page: 9 of '' @ py_str cpython tp @ nl @ rest)"
    by (auto simp: py_str_def str_int_nine)
  from a1 a2 r1 r2 v c1 c2 show ?thesis by (intro conjI)
qed

end
